theory Spec2Isabelle
  imports Main "HOL-Library.Monad_Syntax"
begin

section \<open>Python values used by the scripts\<close>

text \<open>
  A Python \<open>str\<close> is modelled as a \<open>string\<close>, one \<open>char\<close> per code point; the
  model therefore covers the code points below 256. Exceptions are values of
  \<open>py_error\<close>; a computation that may raise returns \<open>py_error + 'a\<close>.
\<close>

datatype py_error =
  KeyError | AttributeError | ValueError | TypeError | OverflowError | IndexError | NameError

text \<open>\<open>str.isspace\<close> for one character (also the class \<open>\s\<close> of \<open>re\<close>).\<close>

definition py_isspace :: "char \<Rightarrow> bool" where
  "py_isspace c = (let n = (of_char c :: nat) in
     (9 \<le> n \<and> n \<le> 13) \<or> (28 \<le> n \<and> n \<le> 32) \<or> n = 133 \<or> n = 160)"

definition py_strip :: "string \<Rightarrow> string" where
  "py_strip s = rev (dropWhile py_isspace (rev (dropWhile py_isspace s)))"

text \<open>
  \<open>str.lower\<close>: the upper-case letters below 256 and their lower-case forms;
  \<open>translate from to c\<close> maps a character of \<open>from\<close> to the character of \<open>to\<close> at the
  same place and leaves every other character as it is.
\<close>

definition upper_chars :: string where
  "upper_chars = ''ABCDEFGHIJKLMNOPQRSTUVWXYZ'' @
     [CHR 0xC0, CHR 0xC1, CHR 0xC2, CHR 0xC3, CHR 0xC4, CHR 0xC5, CHR 0xC6, CHR 0xC7,
      CHR 0xC8, CHR 0xC9, CHR 0xCA, CHR 0xCB, CHR 0xCC, CHR 0xCD, CHR 0xCE, CHR 0xCF,
      CHR 0xD0, CHR 0xD1, CHR 0xD2, CHR 0xD3, CHR 0xD4, CHR 0xD5, CHR 0xD6,
      CHR 0xD8, CHR 0xD9, CHR 0xDA, CHR 0xDB, CHR 0xDC, CHR 0xDD, CHR 0xDE]"

definition lower_chars :: string where
  "lower_chars = ''abcdefghijklmnopqrstuvwxyz'' @
     [CHR 0xE0, CHR 0xE1, CHR 0xE2, CHR 0xE3, CHR 0xE4, CHR 0xE5, CHR 0xE6, CHR 0xE7,
      CHR 0xE8, CHR 0xE9, CHR 0xEA, CHR 0xEB, CHR 0xEC, CHR 0xED, CHR 0xEE, CHR 0xEF,
      CHR 0xF0, CHR 0xF1, CHR 0xF2, CHR 0xF3, CHR 0xF4, CHR 0xF5, CHR 0xF6,
      CHR 0xF8, CHR 0xF9, CHR 0xFA, CHR 0xFB, CHR 0xFC, CHR 0xFD, CHR 0xFE]"

fun translate :: "string \<Rightarrow> string \<Rightarrow> char \<Rightarrow> char" where
  "translate (a # as) (b # bs) c = (if c = a then b else translate as bs c)"
| "translate _ _ c = c"

definition py_lower_char :: "char \<Rightarrow> char" where
  "py_lower_char c = translate upper_chars lower_chars c"

definition py_lower :: "string \<Rightarrow> string" where
  "py_lower s = map py_lower_char s"

text \<open>\<open>str.upper\<close> is only applied to a hexadecimal digest.\<close>

definition py_upper_hex :: "string \<Rightarrow> string" where
  "py_upper_hex s = map (translate ''abcdef'' ''ABCDEF'') s"

fun startswith :: "string \<Rightarrow> string \<Rightarrow> bool" where
  "startswith s [] = True"
| "startswith [] (p # ps) = False"
| "startswith (c # cs) (p # ps) = (c = p \<and> startswith cs ps)"

text \<open>\<open>sub in s\<close> on strings.\<close>

fun py_in :: "string \<Rightarrow> string \<Rightarrow> bool" where
  "py_in sub [] = (sub = [])"
| "py_in sub (c # cs) = (startswith (c # cs) sub \<or> py_in sub cs)"

text \<open>\<open>startswith\<close> up to the case of the letters, as \<open>re.IGNORECASE\<close> compares.\<close>

fun startswith_nocase :: "string \<Rightarrow> string \<Rightarrow> bool" where
  "startswith_nocase s [] = True"
| "startswith_nocase [] (p # ps) = False"
| "startswith_nocase (c # cs) (p # ps) =
     (if py_lower_char c = py_lower_char p then startswith_nocase cs ps else False)"

text \<open>\<open>s.split(sep)\<close> for a one-character separator.\<close>

fun py_split :: "char \<Rightarrow> string \<Rightarrow> string list" where
  "py_split sep [] = [[]]"
| "py_split sep (c # cs) =
     (if c = sep then [] # py_split sep cs
      else (case py_split sep cs of
              [] \<Rightarrow> [[c]]
            | p # ps \<Rightarrow> (c # p) # ps))"

text \<open>\<open>s.replace(old, new)\<close> for a one-character \<open>old\<close>.\<close>

definition py_replace :: "char \<Rightarrow> string \<Rightarrow> string \<Rightarrow> string" where
  "py_replace old new s = concat (map (\<lambda>c. if c = old then new else [c]) s)"

text \<open>Truth value of an optional string (\<open>None\<close> and \<open>''\<close> are false).\<close>

fun str_truthy :: "string option \<Rightarrow> bool" where
  "str_truthy None = False"
| "str_truthy (Some s) = (s \<noteq> [])"

subsection \<open>Regular expressions\<close>

text \<open>
  The patterns of the scripts use literals, repetition of a character class (greedy or
  lazy), groups and \<open>$\<close>. \<open>matches r s\<close> lists, in the order in which the backtracking
  matcher of \<open>re\<close> tries them, the ways \<open>r\<close> matches a prefix of \<open>s\<close>: the rest of the
  string and the groups captured. \<open>re.match\<close> takes the first; \<open>re.search\<close> takes the
  first at the leftmost position that has one. A leading \<open>^\<close> is not represented:
  the two patterns that have one are used with \<open>re.match\<close>, which anchors at the start.
\<close>

datatype regex =
    Lit string
  | LitI string
  | Rep "char \<Rightarrow> bool" nat "nat option" bool
  | Seq regex regex
  | Grp regex
  | Eos

definition rep_counts :: "nat \<Rightarrow> nat option \<Rightarrow> bool \<Rightarrow> nat \<Rightarrow> nat list" where
  "rep_counts lo hi greedy avail =
     (let top = (case hi of None \<Rightarrow> avail | Some h \<Rightarrow> min h avail);
          ks = [lo ..< Suc top]
      in if greedy then rev ks else ks)"

fun matches :: "regex \<Rightarrow> string \<Rightarrow> (string \<times> string list) list" where
  "matches (Lit l) s = (if startswith s l then [(drop (length l) s, [])] else [])"
| "matches (LitI l) s =
     (if startswith_nocase s l then [(drop (length l) s, [])] else [])"
| "matches (Rep cls lo hi greedy) s =
     map (\<lambda>k. (drop k s, [])) (rep_counts lo hi greedy (length (takeWhile cls s)))"
| "matches (Seq r1 r2) s =
     concat (map (\<lambda>(s1, g1). map (\<lambda>(s2, g2). (s2, g1 @ g2)) (matches r2 s1)) (matches r1 s))"
| "matches (Grp r) s =
     map (\<lambda>(s1, g). (s1, take (length s - length s1) s # g)) (matches r s)"
| "matches Eos s = (if s = [] \<or> s = [CHR 0x0A] then [(s, [])] else [])"

definition re_match :: "regex \<Rightarrow> string \<Rightarrow> string list option" where
  "re_match r s = (case matches r s of [] \<Rightarrow> None | (rest, groups) # _ \<Rightarrow> Some groups)"

fun re_search :: "regex \<Rightarrow> string \<Rightarrow> string list option" where
  "re_search r [] = re_match r []"
| "re_search r (c # cs) =
     (case re_match r (c # cs) of Some groups \<Rightarrow> Some groups | None \<Rightarrow> re_search r cs)"

text \<open>The character classes of the patterns.\<close>

definition upper_az :: "char \<Rightarrow> bool" where
  "upper_az c = (65 \<le> (of_char c :: nat) \<and> (of_char c :: nat) \<le> 90)"

definition lower_az :: "char \<Rightarrow> bool" where
  "lower_az c = (97 \<le> (of_char c :: nat) \<and> (of_char c :: nat) \<le> 122)"

definition digit :: "char \<Rightarrow> bool" where
  "digit c = (48 \<le> (of_char c :: nat) \<and> (of_char c :: nat) \<le> 57)"

definition alnum :: "char \<Rightarrow> bool" where
  "alnum c = (upper_az c \<or> lower_az c \<or> digit c)"

definition alpha :: "char \<Rightarrow> bool" where
  "alpha c = (lower_az c \<or> upper_az c)"

definition not_newline :: "char \<Rightarrow> bool" where
  "not_newline c = (c \<noteq> CHR 0x0A)"

definition email_local :: "char \<Rightarrow> bool" where
  "email_local c = (lower_az c \<or> upper_az c \<or> digit c \<or> c \<in> set ''._%+-'')"

definition email_domain :: "char \<Rightarrow> bool" where
  "email_domain c = (lower_az c \<or> upper_az c \<or> digit c \<or> c \<in> set ''.-'')"

section \<open>validate-request.py\<close>

definition validate_hardware_fingerprint :: "string \<Rightarrow> bool" where
  "validate_hardware_fingerprint fingerprint =
     (re_match (Seq (Rep alnum 16 (Some 16) True) Eos) fingerprint \<noteq> None)"

definition validate_email :: "string \<Rightarrow> bool" where
  "validate_email email =
     (re_match (Seq (Rep email_local 1 None True)
               (Seq (Lit ''@'')
               (Seq (Rep email_domain 1 None True)
               (Seq (Lit ''.'')
               (Seq (Rep alpha 2 None True) Eos))))) email \<noteq> None)"

text \<open>The dictionary \<open>info\<close> of \<open>extract_issue_info\<close>.\<close>

record issue_info =
  fingerprint :: "string option"
  company :: "string option"
  email :: "string option"
  name :: "string option"
  valid :: bool
  errors :: "string list"

definition title_pattern :: regex where
  "title_pattern =
     Seq (Lit ''Auto-Activation Request - '')
    (Seq (Grp (Rep not_newline 1 None False))
    (Seq (Lit '' - '') (Grp (Rep not_newline 1 None True))))"

text \<open>The body patterns \<open>Label:\s*([^\n]+)\<close>.\<close>

definition field_pattern :: "string \<Rightarrow> regex" where
  "field_pattern label =
     Seq (Lit label) (Seq (Rep py_isspace 0 None True) (Grp (Rep not_newline 1 None True)))"

text \<open>\<open>m.group(1).strip()\<close> of an optional match.\<close>

fun group1_strip :: "string list option \<Rightarrow> string option" where
  "group1_strip (Some (g # gs)) = Some (py_strip g)"
| "group1_strip _ = None"

definition extract_title :: "string \<Rightarrow> issue_info \<Rightarrow> issue_info" where
  "extract_title title info =
     (case re_match title_pattern title of
        Some [g1, g2] \<Rightarrow> info\<lparr>company := Some (py_strip g1), fingerprint := Some (py_strip g2)\<rparr>
      | _ \<Rightarrow> info)"

definition extract_body :: "string \<Rightarrow> issue_info \<Rightarrow> issue_info" where
  "extract_body body info =
     (if body = [] then info
      else
        let info = (case group1_strip (re_search (field_pattern ''Email:'') body) of
                      Some e \<Rightarrow> info\<lparr>email := Some e\<rparr> | None \<Rightarrow> info);
            info = (case group1_strip (re_search (field_pattern ''Contact:'') body) of
                      Some n \<Rightarrow> info\<lparr>name := Some n\<rparr> | None \<Rightarrow> info);
            info = (if \<not> str_truthy (fingerprint info)
                    then (case group1_strip (re_search (field_pattern ''Hardware Fingerprint:'') body) of
                            Some f \<Rightarrow> info\<lparr>fingerprint := Some f\<rparr> | None \<Rightarrow> info)
                    else info);
            info = (if \<not> str_truthy (company info)
                    then (case group1_strip (re_search (field_pattern ''Company:'') body) of
                            Some c \<Rightarrow> info\<lparr>company := Some c\<rparr> | None \<Rightarrow> info)
                    else info)
        in info)"

definition append_error :: "string \<Rightarrow> issue_info \<Rightarrow> issue_info" where
  "append_error e info = info\<lparr>errors := errors info @ [e]\<rparr>"

definition check_fingerprint :: "issue_info \<Rightarrow> issue_info" where
  "check_fingerprint info =
     (case fingerprint info of
        None \<Rightarrow> append_error ''Hardware fingerprint not found'' info
      | Some f \<Rightarrow>
          if f = [] then append_error ''Hardware fingerprint not found'' info
          else if \<not> validate_hardware_fingerprint f
          then append_error ''Invalid hardware fingerprint format'' info
          else info)"

definition check_company :: "issue_info \<Rightarrow> issue_info" where
  "check_company info =
     (case company info of
        None \<Rightarrow> append_error ''Company name not found'' info
      | Some c \<Rightarrow>
          if c = [] then append_error ''Company name not found'' info
          else if length c < 2 then append_error ''Company name too short'' info
          else info)"

definition check_email :: "issue_info \<Rightarrow> issue_info" where
  "check_email info =
     (case email info of
        None \<Rightarrow> append_error ''Contact email not found'' info
      | Some e \<Rightarrow>
          if e = [] then append_error ''Contact email not found'' info
          else if \<not> validate_email e then append_error ''Invalid email format'' info
          else info)"

definition extract_issue_info :: "string \<Rightarrow> string \<Rightarrow> issue_info" where
  "extract_issue_info title body =
     (let info = \<lparr>fingerprint = None, company = None, email = None, name = None,
                  valid = False, errors = []\<rparr>;
          info = extract_title title info;
          info = extract_body body info;
          info = check_fingerprint info;
          info = check_company info;
          info = check_email info
      in info\<lparr>valid := (length (errors info) = 0)\<rparr>)"

section \<open>validate-version.py\<close>

text \<open>
  \<open>int(x)\<close> on a string belongs to the interpreter, not to the scripts: the functions
  below take it as the parameter \<open>to_int\<close>, which returns \<open>None\<close> where \<open>int\<close>
  raises \<open>ValueError\<close>. \<open>py_int\<close> is the instance used in the worked examples:
  surrounding whitespace, an optional sign, decimal digits with single underscores
  between them (the length limit on digit strings of recent interpreters is not part
  of it).
\<close>

fun digits_value :: "bool \<Rightarrow> int \<Rightarrow> string \<Rightarrow> int option" where
  "digits_value seen acc [] = (if seen then Some acc else None)"
| "digits_value seen acc [c] =
     (if digit c then Some (acc * 10 + (int (of_char c) - 48)) else None)"
| "digits_value seen acc (c # d # cs) =
     (if digit c then digits_value True (acc * 10 + (int (of_char c) - 48)) (d # cs)
      else if c = CHR ''_'' \<and> seen \<and> digit d then digits_value True acc (d # cs)
      else None)"

definition py_int :: "string \<Rightarrow> int option" where
  "py_int x =
     (case py_strip x of
        [] \<Rightarrow> None
      | c # cs \<Rightarrow>
          if c = CHR ''-'' then map_option uminus (digits_value False 0 cs)
          else if c = CHR ''+'' then digits_value False 0 cs
          else digits_value False 0 (c # cs))"

text \<open>The result of \<open>load_version_config\<close>: a dictionary in which any key may be absent.\<close>

record version_config =
  cfg_minimum_version :: "string option"
  cfg_latest_version :: "string option"
  cfg_enforce_version_check :: "bool option"
  cfg_allow_older_reactivations :: "bool option"

text \<open>The configuration returned when the configuration file does not exist.\<close>

definition default_config :: version_config where
  "default_config =
     \<lparr>cfg_minimum_version = Some ''3.2.4'', cfg_latest_version = Some ''3.2.4'',
      cfg_enforce_version_check = Some True, cfg_allow_older_reactivations = Some True\<rparr>"

text \<open>The default configuration with older reactivations not allowed.\<close>

definition strict_config :: version_config where
  "strict_config = default_config\<lparr>cfg_allow_older_reactivations := Some False\<rparr>"

text \<open>The four patterns \<open>Label:\s*([0-9]+\.[0-9]+\.[0-9]+)\<close>, matched with \<open>re.IGNORECASE\<close>.\<close>

definition version_pattern :: "string \<Rightarrow> regex" where
  "version_pattern label =
     Seq (LitI label)
    (Seq (Rep py_isspace 0 None True)
         (Grp (Seq (Rep digit 1 None True)
              (Seq (Lit ''.'')
              (Seq (Rep digit 1 None True)
              (Seq (Lit ''.'') (Rep digit 1 None True)))))))"

definition version_patterns :: "regex list" where
  "version_patterns =
     [version_pattern ''Software Version:'', version_pattern ''Client Version:'',
      version_pattern ''Version:'', version_pattern ''App Version:'']"

fun first_version :: "regex list \<Rightarrow> string \<Rightarrow> string option" where
  "first_version [] body = None"
| "first_version (pattern # patterns) body =
     (case re_search pattern body of
        Some (g # gs) \<Rightarrow> Some g
      | _ \<Rightarrow> first_version patterns body)"

definition extract_version_from_body :: "string \<Rightarrow> string option" where
  "extract_version_from_body body =
     (if body = [] then None else first_version version_patterns body)"

definition is_reactivation_request :: "string \<Rightarrow> string \<Rightarrow> bool" where
  "is_reactivation_request title body =
     (if py_in ''reactivation'' (py_lower title) then True
      else if py_in ''auto-reactivation'' (py_lower title) then True
      else if body \<noteq> [] \<and> py_in ''reactivation'' (py_lower body) then True
      else False)"

text \<open>\<open>[int(x) for x in parts]\<close>: the first component that is not a number raises.\<close>

fun int_parts :: "(string \<Rightarrow> int option) \<Rightarrow> string list \<Rightarrow> py_error + int list" where
  "int_parts to_int [] = Inr []"
| "int_parts to_int (x # xs) =
     (case to_int x of
        None \<Rightarrow> Inl ValueError
      | Some n \<Rightarrow> (case int_parts to_int xs of Inl e \<Rightarrow> Inl e | Inr ns \<Rightarrow> Inr (n # ns)))"

text \<open>\<open>while len(parts) < len(other): parts.append(0)\<close>\<close>

function pad_parts :: "int list \<Rightarrow> int list \<Rightarrow> int list" where
  "pad_parts parts other =
     (if length parts < length other then pad_parts (parts @ [0]) other else parts)"
  by pat_completeness auto
termination
  by (relation "measure (\<lambda>(parts, other). length other - length parts)") auto

text \<open>The loop \<open>for i in range(len(v1_parts))\<close>, entered at index \<open>i\<close>.\<close>

function compare_from :: "nat \<Rightarrow> int list \<Rightarrow> int list \<Rightarrow> py_error + int" where
  "compare_from i v1_parts v2_parts =
     (if i < length v1_parts then
        (if length v2_parts \<le> i then Inl IndexError
         else if v1_parts ! i > v2_parts ! i then Inr 1
         else if v1_parts ! i < v2_parts ! i then Inr (- 1)
         else compare_from (Suc i) v1_parts v2_parts)
      else Inr 0)"
  by pat_completeness auto
termination
  by (relation "measure (\<lambda>(i, v1_parts, v2_parts). length v1_parts - i)") auto

declare pad_parts.simps [simp del] compare_from.simps [simp del]

text \<open>The body of the \<open>try\<close> of \<open>compare_versions\<close>.\<close>

definition compare_try :: "(string \<Rightarrow> int option) \<Rightarrow> string \<Rightarrow> string \<Rightarrow> py_error + int" where
  "compare_try to_int v1 v2 =
     (case int_parts to_int (py_split (CHR ''.'') v1) of
        Inl e \<Rightarrow> Inl e
      | Inr v1_parts \<Rightarrow>
          (case int_parts to_int (py_split (CHR ''.'') v2) of
             Inl e \<Rightarrow> Inl e
           | Inr v2_parts \<Rightarrow>
               let v1_parts = pad_parts v1_parts v2_parts;
                   v2_parts = pad_parts v2_parts v1_parts
               in compare_from 0 v1_parts v2_parts))"

definition compare_versions :: "(string \<Rightarrow> int option) \<Rightarrow> string \<Rightarrow> string \<Rightarrow> int" where
  "compare_versions to_int v1 v2 =
     (case compare_try to_int v1 v2 of Inl e \<Rightarrow> 0 | Inr r \<Rightarrow> r)"

text \<open>The dictionary \<open>result\<close> of \<open>validate_version\<close>.\<close>

record version_result =
  valid :: bool
  client_version :: string
  minimum_version :: string
  latest_version :: string
  is_latest :: bool
  is_acceptable :: bool
  is_reactivation :: bool
  message :: string
  warning_only :: bool

definition validate_version ::
  "(string \<Rightarrow> int option) \<Rightarrow> string option \<Rightarrow> string \<Rightarrow> string \<Rightarrow> bool \<Rightarrow> bool \<Rightarrow> version_result" where
  "validate_version to_int client_version_arg minimum latest reactivation allow_older_reactivations =
     (let result = \<lparr>valid = False,
                     client_version =
                       (case client_version_arg of
                          None \<Rightarrow> ''unknown''
                        | Some v \<Rightarrow> if v = [] then ''unknown'' else v),
                     minimum_version = minimum,
                     latest_version = latest,
                     is_latest = False,
                     is_acceptable = False,
                     is_reactivation = reactivation,
                     message = [],
                     warning_only = False\<rparr>
      in if \<not> str_truthy client_version_arg then
           (if reactivation \<and> allow_older_reactivations then
              result\<lparr>valid := True, warning_only := True,
                message := ''Reactivation request - version not provided but allowed for existing licenses''\<rparr>
            else
              result\<lparr>message := ''No software version information provided in request''\<rparr>)
         else
           let v = (case client_version_arg of None \<Rightarrow> [] | Some v \<Rightarrow> v);
               vs_minimum = compare_versions to_int v minimum;
               vs_latest = compare_versions to_int v latest;
               result = result\<lparr>is_acceptable := (vs_minimum \<ge> 0), is_latest := (vs_latest \<ge> 0)\<rparr>
           in if reactivation \<and> allow_older_reactivations then
                (let result = result\<lparr>valid := True\<rparr>
                 in if \<not> is_latest result then
                      result\<lparr>warning_only := True,
                        message := ''Reactivation allowed for version '' @ v @
                          '', but please update to '' @ latest @ '' for latest features''\<rparr>
                    else
                      result\<lparr>message := ''Reactivation approved for current version '' @ v\<rparr>)
              else
                (let result = result\<lparr>valid := is_acceptable result\<rparr>
                 in if vs_minimum < 0 then
                      result\<lparr>message := ''Version '' @ v @ '' is outdated. Minimum required: '' @
                          minimum @ ''. Latest: '' @ latest @
                          ''. Please update software before activation.''\<rparr>
                    else if vs_latest < 0 then
                      result\<lparr>message := ''Version '' @ v @
                          '' is acceptable but not latest. Latest version: '' @ latest @
                          ''. Consider updating for new features and bug fixes.'',
                        warning_only := True\<rparr>
                    else
                      result\<lparr>message := ''Version '' @ v @ '' is current and up to date.''\<rparr>))"

text \<open>
  \<open>main\<close> of validate-version.py, from the loaded configuration and the two arguments:
  the decision and the exit status of the process.
\<close>

definition main_version ::
  "(string \<Rightarrow> int option) \<Rightarrow> version_config \<Rightarrow> string \<Rightarrow> string \<Rightarrow> version_result \<times> nat" where
  "main_version to_int config issue_title issue_body =
     (let minimum = (case cfg_minimum_version config of None \<Rightarrow> ''3.2.4'' | Some v \<Rightarrow> v);
          latest = (case cfg_latest_version config of None \<Rightarrow> ''3.2.4'' | Some v \<Rightarrow> v);
          enforce_check = (case cfg_enforce_version_check config of None \<Rightarrow> True | Some b \<Rightarrow> b);
          allow_older_reactivations =
            (case cfg_allow_older_reactivations config of None \<Rightarrow> True | Some b \<Rightarrow> b);
          reactivation = is_reactivation_request issue_title issue_body;
          client = extract_version_from_body issue_body;
          result = validate_version to_int client minimum latest reactivation allow_older_reactivations
      in (result, if enforce_check \<and> \<not> valid result then 1 else 0))"

section \<open>Dates, times and JSON values\<close>

text \<open>
  A \<open>datetime\<close> is its wall-clock reading, in microseconds since 0001-01-01T00:00:00,
  and its UTC offset in microseconds (\<open>None\<close> for a naive value, as \<open>datetime.now()\<close>
  returns). The type holds the readings from 0001-01-01T00:00:00 to
  9999-12-31T23:59:59.999999; arithmetic that leaves this range raises \<open>OverflowError\<close>.
\<close>

datatype datetime = Datetime (wall: int) (utcoffset: "int option")

definition us_per_day :: int where
  "us_per_day = 86400000000"

definition max_wall :: int where
  "max_wall = 3652059 * us_per_day - 1"

text \<open>\<open>timedelta(days=n)\<close>, in microseconds.\<close>

definition timedelta_days :: "int \<Rightarrow> py_error + int" where
  "timedelta_days n =
     (if - 999999999 \<le> n \<and> n \<le> 999999999 then Inr (n * us_per_day) else Inl OverflowError)"

text \<open>\<open>d + delta\<close>\<close>

definition datetime_add :: "datetime \<Rightarrow> int \<Rightarrow> py_error + datetime" where
  "datetime_add d delta =
     (if 0 \<le> wall d + delta \<and> wall d + delta \<le> max_wall
      then Inr (Datetime (wall d + delta) (utcoffset d))
      else Inl OverflowError)"

definition add_days :: "datetime \<Rightarrow> int \<Rightarrow> py_error + datetime" where
  "add_days d n = (case timedelta_days n of Inl e \<Rightarrow> Inl e | Inr delta \<Rightarrow> datetime_add d delta)"

text \<open>\<open>a <= b\<close>: a naive and an aware value cannot be compared.\<close>

definition datetime_le :: "datetime \<Rightarrow> datetime \<Rightarrow> py_error + bool" where
  "datetime_le a b =
     (case (utcoffset a, utcoffset b) of
        (None, None) \<Rightarrow> Inr (wall a \<le> wall b)
      | (Some oa, Some ob) \<Rightarrow> Inr (wall a - oa \<le> wall b - ob)
      | _ \<Rightarrow> Inl TypeError)"

text \<open>
  The library functions the scripts call on strings are parameters of the model:
  \<open>fromisoformat\<close> (\<open>None\<close> where it raises \<open>ValueError\<close>), \<open>isoformat\<close>, and
  \<open>sha256_hexdigest\<close> for \<open>hashlib.sha256(data.encode()).hexdigest()\<close>.
\<close>

record pylib =
  fromisoformat :: "string \<Rightarrow> datetime option"
  isoformat :: "datetime \<Rightarrow> string"
  sha256_hexdigest :: "string \<Rightarrow> string"

text \<open>
  What \<open>json.load\<close> returns (numbers with a fraction or an exponent are left out), and a
  license: a dictionary from field names to such values.
\<close>

datatype json =
  JNull | JBool bool | JInt int | JStr string | JList "json list" | JObj "(string \<times> json) list"

type_synonym license_data = "string \<rightharpoonup> json"

text \<open>Truth value of \<open>d.get(key)\<close>.\<close>

fun json_truthy :: "json option \<Rightarrow> bool" where
  "json_truthy None = False"
| "json_truthy (Some JNull) = False"
| "json_truthy (Some (JBool b)) = b"
| "json_truthy (Some (JInt n)) = (n \<noteq> 0)"
| "json_truthy (Some (JStr s)) = (s \<noteq> [])"
| "json_truthy (Some (JList xs)) = (xs \<noteq> [])"
| "json_truthy (Some (JObj kvs)) = (kvs \<noteq> [])"

text \<open>\<open>v + 1\<close>\<close>

fun json_add1 :: "json \<Rightarrow> py_error + json" where
  "json_add1 (JInt n) = Inr (JInt (n + 1))"
| "json_add1 (JBool b) = Inr (JInt ((if b then 1 else 0) + 1))"
| "json_add1 _ = Inl TypeError"

text \<open>\<open>datetime.fromisoformat(v.replace('Z', '+00:00'))\<close> on a value of a license.\<close>

fun parse_expiry :: "pylib \<Rightarrow> json \<Rightarrow> py_error + datetime" where
  "parse_expiry lib (JStr s) =
     (case fromisoformat lib (py_replace (CHR ''Z'') ''+00:00'' s) of
        None \<Rightarrow> Inl ValueError
      | Some d \<Rightarrow> Inr d)"
| "parse_expiry lib _ = Inl AttributeError"

section \<open>auto-reactivate.py\<close>

text \<open>
  \<open>reactivate_license\<close> updates the dictionary it is given, one key after the other, and
  returns it. The model returns the exception raised, if any, and the dictionary as the
  call leaves it. \<open>now\<close> is the reading of \<open>datetime.now()\<close>.
\<close>

definition reactivate_license ::
  "pylib \<Rightarrow> datetime \<Rightarrow> license_data \<Rightarrow> py_error option \<times> license_data" where
  "reactivate_license lib now license =
     (case license ''expires_date'' of
        None \<Rightarrow> (Some KeyError, license)
      | Some v \<Rightarrow>
          (case parse_expiry lib v of
             Inl e \<Rightarrow> (Some e, license)
           | Inr current_expires \<Rightarrow>
               (case add_days current_expires 30 of
                  Inl e \<Rightarrow> (Some e, license)
                | Inr new_expires \<Rightarrow>
                    let license = license(''expires_date'' \<mapsto> JStr (isoformat lib new_expires));
                        license = license(''last_reactivated'' \<mapsto> JStr (isoformat lib now))
                    in (case json_add1 (case license ''reactivation_count'' of
                                          None \<Rightarrow> JInt 0 | Some c \<Rightarrow> c) of
                          Inl e \<Rightarrow> (Some e, license)
                        | Inr count \<Rightarrow>
                            let license = license(''reactivation_count'' \<mapsto> count);
                                license = license(''status'' \<mapsto> JStr ''active'')
                            in (None, license)))))"

section \<open>check-expiring-licenses.py\<close>

text \<open>The body of the \<open>try\<close> in the loop of \<open>find_expiring_licenses\<close>.\<close>

definition expires_by :: "pylib \<Rightarrow> datetime \<Rightarrow> json \<Rightarrow> py_error + bool" where
  "expires_by lib cutoff_date v =
     (case parse_expiry lib v of
        Inl e \<Rightarrow> Inl e
      | Inr expires_date \<Rightarrow> datetime_le expires_date cutoff_date)"

text \<open>The loop over the licenses; \<open>expiring\<close> is the list built so far.\<close>

fun scan_licenses ::
  "pylib \<Rightarrow> datetime \<Rightarrow> license_data list \<Rightarrow> license_data list \<Rightarrow> license_data list" where
  "scan_licenses lib cutoff_date [] expiring = expiring"
| "scan_licenses lib cutoff_date (license # rest) expiring =
     (if license ''status'' \<noteq> Some (JStr ''active'') then
        scan_licenses lib cutoff_date rest expiring
      else if \<not> json_truthy (license ''expires_date'') then
        scan_licenses lib cutoff_date rest expiring
      else
        (case license ''expires_date'' of
           None \<Rightarrow> scan_licenses lib cutoff_date rest expiring
         | Some v \<Rightarrow>
             (case expires_by lib cutoff_date v of
                Inr True \<Rightarrow> scan_licenses lib cutoff_date rest (expiring @ [license])
              | Inr False \<Rightarrow> scan_licenses lib cutoff_date rest expiring
              | Inl e \<Rightarrow> scan_licenses lib cutoff_date rest expiring)))"

definition find_expiring_licenses ::
  "pylib \<Rightarrow> datetime \<Rightarrow> license_data list \<Rightarrow> int \<Rightarrow> py_error + license_data list" where
  "find_expiring_licenses lib now licenses days_ahead =
     (case add_days now days_ahead of
        Inl e \<Rightarrow> Inl e
      | Inr cutoff_date \<Rightarrow> Inr (scan_licenses lib cutoff_date licenses []))"

text \<open>
  \<open>main\<close>, from the licenses loaded: the outputs \<open>total_licenses\<close> and \<open>expiring_count\<close>
  and the list written to \<open>expiring_licenses.json\<close>.
\<close>

definition main_check ::
  "pylib \<Rightarrow> datetime \<Rightarrow> license_data list \<Rightarrow> py_error + (nat \<times> nat \<times> license_data list)" where
  "main_check lib now licenses =
     (case find_expiring_licenses lib now licenses 5 of
        Inl e \<Rightarrow> Inl e
      | Inr expiring \<Rightarrow> Inr (length licenses, length expiring, expiring))"

section \<open>generate-license.py\<close>

text \<open>\<open>key_now\<close> is the reading of \<open>datetime.now()\<close> inside \<open>generate_license_key\<close>.\<close>

definition generate_license_key :: "pylib \<Rightarrow> datetime \<Rightarrow> string \<Rightarrow> string \<Rightarrow> string \<Rightarrow> string" where
  "generate_license_key lib key_now fp co em =
     (let data = fp @ '':'' @ co @ '':'' @ em @ '':'' @ isoformat lib key_now
      in py_upper_hex (take 32 (sha256_hexdigest lib data)))"

definition create_license ::
  "pylib \<Rightarrow> datetime \<Rightarrow> datetime \<Rightarrow> string \<Rightarrow> string \<Rightarrow> string \<Rightarrow> int \<Rightarrow> py_error + license_data" where
  "create_license lib now key_now fp co em duration_days =
     (case add_days now duration_days of
        Inl e \<Rightarrow> Inl e
      | Inr expires \<Rightarrow>
          Inr [''license_key'' \<mapsto> JStr (generate_license_key lib key_now fp co em),
               ''hardware_fingerprint'' \<mapsto> JStr fp,
               ''company_name'' \<mapsto> JStr co,
               ''contact_email'' \<mapsto> JStr em,
               ''created_date'' \<mapsto> JStr (isoformat lib now),
               ''expires_date'' \<mapsto> JStr (isoformat lib expires),
               ''status'' \<mapsto> JStr ''active'',
               ''version'' \<mapsto> JStr ''3.2.0'',
               ''auto_generated'' \<mapsto> JBool True,
               ''reactivation_required'' \<mapsto> JBool True,
               ''generated_by'' \<mapsto> JStr ''github-actions'',
               ''generation_method'' \<mapsto> JStr ''automated''])"

text \<open>
  \<open>main\<close>, from the parsed arguments to the end of the run. \<open>Rejected\<close> is an exit with
  status 1 after the message is printed (lines 51 to 61). \<open>Raised\<close> is an exception of
  \<open>create_license\<close>, which nothing catches. Otherwise the license is built (line 64) and
  printed (lines 67 to 69), and line 72 evaluates \<open>os.environ\<close>: the script does not
  import \<open>os\<close>, so the run ends there with an uncaught \<open>NameError\<close>. \<open>Printed\<close> holds
  the license printed and the exception that ends the run.
\<close>

datatype generation = Rejected string | Raised py_error | Printed license_data py_error

definition main_generate ::
  "pylib \<Rightarrow> datetime \<Rightarrow> datetime \<Rightarrow> string \<Rightarrow> string \<Rightarrow> string \<Rightarrow> int \<Rightarrow> generation" where
  "main_generate lib now key_now fp co em duration =
     (if fp = [] \<or> length fp < 32 then Rejected ''ERROR: Invalid hardware fingerprint''
      else if co = [] \<or> length co < 2 then Rejected ''ERROR: Invalid company name''
      else if em = [] \<or> \<not> py_in ''@'' em then Rejected ''ERROR: Invalid email address''
      else (case create_license lib now key_now fp co em duration of
              Inl e \<Rightarrow> Raised e
            | Inr license \<Rightarrow> Printed license NameError))"

section \<open>An instance of the library functions\<close>

text \<open>
  For worked examples the parameters are instantiated: \<open>iso_format\<close> writes a value as
  \<open>datetime.isoformat\<close> does, \<open>iso_parse\<close> reads the layout
  \<open>YYYY-MM-DDTHH:MM:SS[.ffffff][+HH:MM]\<close> that \<open>isoformat\<close> writes, with the calendar
  arithmetic of the \<open>datetime\<close> module. The digest of the instance is a constant: no
  statement below depends on the digest.
\<close>

definition is_leap :: "int \<Rightarrow> bool" where
  "is_leap y = (y mod 4 = 0 \<and> (y mod 100 \<noteq> 0 \<or> y mod 400 = 0))"

definition days_in_month :: "int \<Rightarrow> int \<Rightarrow> int" where
  "days_in_month y m =
     (if m = 2 then (if is_leap y then 29 else 28)
      else if m = 4 \<or> m = 6 \<or> m = 9 \<or> m = 11 then 30 else 31)"

definition days_before_year :: "int \<Rightarrow> int" where
  "days_before_year y = (y - 1) * 365 + (y - 1) div 4 - (y - 1) div 100 + (y - 1) div 400"

definition days_before_month :: "int \<Rightarrow> int \<Rightarrow> int" where
  "days_before_month y m = sum_list (map (days_in_month y) [1 .. m - 1])"

definition ymd2ord :: "int \<Rightarrow> int \<Rightarrow> int \<Rightarrow> int" where
  "ymd2ord y m d = days_before_year y + days_before_month y m + d"

definition ord2ymd :: "int \<Rightarrow> int \<times> int \<times> int" where
  "ord2ymd ordinal =
     (let n = ordinal - 1;
          n400 = n div 146097; n = n mod 146097;
          n100 = n div 36524; n = n mod 36524;
          n4 = n div 1461; n = n mod 1461;
          n1 = n div 365; n = n mod 365;
          y = n400 * 400 + 1 + n100 * 100 + n4 * 4 + n1
      in if n1 = 4 \<or> n100 = 4 then (y - 1, 12, 31)
         else
           let m = (n + 50) div 32;
               preceding = days_before_month y m
           in if preceding > n
              then (y, m - 1, n - (preceding - days_in_month y (m - 1)) + 1)
              else (y, m, n - preceding + 1))"

text \<open>A number in decimal, padded with zeros to a width.\<close>

definition zero_padded :: "nat \<Rightarrow> int \<Rightarrow> string" where
  "zero_padded width n =
     map (\<lambda>i. char_of (48 + nat (n div 10 ^ i mod 10))) (rev [0 ..< width])"

definition format_offset :: "int \<Rightarrow> string" where
  "format_offset off =
     (let a = \<bar>off\<bar>;
          hh = a div 3600000000; mm = a div 60000000 mod 60;
          ss = a div 1000000 mod 60; ff = a mod 1000000
      in (if off < 0 then ''-'' else ''+'') @ zero_padded 2 hh @ '':'' @ zero_padded 2 mm @
         (if ss \<noteq> 0 \<or> ff \<noteq> 0 then '':'' @ zero_padded 2 ss else []) @
         (if ff \<noteq> 0 then ''.'' @ zero_padded 6 ff else []))"

definition iso_format :: "datetime \<Rightarrow> string" where
  "iso_format d =
     (let days = wall d div us_per_day; t = wall d mod us_per_day;
          (y, m, dd) = ord2ymd (days + 1);
          hh = t div 3600000000; mm = t div 60000000 mod 60;
          ss = t div 1000000 mod 60; ff = t mod 1000000
      in zero_padded 4 y @ ''-'' @ zero_padded 2 m @ ''-'' @ zero_padded 2 dd @ ''T'' @
         zero_padded 2 hh @ '':'' @ zero_padded 2 mm @ '':'' @ zero_padded 2 ss @
         (if ff \<noteq> 0 then ''.'' @ zero_padded 6 ff else []) @
         (case utcoffset d of None \<Rightarrow> [] | Some off \<Rightarrow> format_offset off))"

text \<open>Reading a fixed number of digits, and one given character.\<close>

fun take_number :: "nat \<Rightarrow> int \<Rightarrow> string \<Rightarrow> (int \<times> string) option" where
  "take_number 0 acc s = Some (acc, s)"
| "take_number (Suc k) acc [] = None"
| "take_number (Suc k) acc (c # cs) =
     (if digit c then take_number k (acc * 10 + (int (of_char c) - 48)) cs else None)"

fun expect :: "char \<Rightarrow> string \<Rightarrow> string option" where
  "expect c [] = None"
| "expect c (x # xs) = (if x = c then Some xs else None)"

definition parse_fraction :: "string \<Rightarrow> (int \<times> string) option" where
  "parse_fraction s =
     (case s of
        c # cs \<Rightarrow> if c = CHR ''.'' then take_number 6 0 cs else Some (0, s)
      | [] \<Rightarrow> Some (0, s))"

definition parse_offset :: "string \<Rightarrow> int option option" where
  "parse_offset s =
     (case s of
        [] \<Rightarrow> Some None
      | c # cs \<Rightarrow>
          if c = CHR ''+'' \<or> c = CHR ''-'' then
            do {
              (hh, s1) \<leftarrow> take_number 2 0 cs;
              s2 \<leftarrow> expect (CHR '':'') s1;
              (mm, s3) \<leftarrow> take_number 2 0 s2;
              if s3 = [] \<and> hh < 24 \<and> mm < 60
              then Some (Some ((if c = CHR ''-'' then - 1 else 1) * (hh * 3600000000 + mm * 60000000)))
              else None
            }
          else None)"

definition iso_parse :: "string \<Rightarrow> datetime option" where
  "iso_parse s =
     do {
       (y, s) \<leftarrow> take_number 4 0 s;
       s \<leftarrow> expect (CHR ''-'') s;
       (m, s) \<leftarrow> take_number 2 0 s;
       s \<leftarrow> expect (CHR ''-'') s;
       (d, s) \<leftarrow> take_number 2 0 s;
       s \<leftarrow> expect (CHR ''T'') s;
       (hh, s) \<leftarrow> take_number 2 0 s;
       s \<leftarrow> expect (CHR '':'') s;
       (mm, s) \<leftarrow> take_number 2 0 s;
       s \<leftarrow> expect (CHR '':'') s;
       (ss, s) \<leftarrow> take_number 2 0 s;
       (ff, s) \<leftarrow> parse_fraction s;
       off \<leftarrow> parse_offset s;
       if 1 \<le> y \<and> 1 \<le> m \<and> m \<le> 12 \<and> 1 \<le> d \<and> d \<le> days_in_month y m \<and>
          hh < 24 \<and> mm < 60 \<and> ss < 60
       then Some (Datetime ((ymd2ord y m d - 1) * us_per_day + hh * 3600000000 +
                            mm * 60000000 + ss * 1000000 + ff) off)
       else None
     }"

definition ref_lib :: pylib where
  "ref_lib = \<lparr>fromisoformat = iso_parse, isoformat = iso_format,
              sha256_hexdigest = (\<lambda>data. replicate 64 (CHR ''0''))\<rparr>"

section \<open>Terms of the properties of licenses\<close>

text \<open>A time plus a number of days, and the reactivation count a license records.\<close>

definition plus_days :: "datetime \<Rightarrow> int \<Rightarrow> datetime" where
  "plus_days d n = Datetime (wall d + n * us_per_day) (utcoffset d)"

definition recorded_count :: "license_data \<Rightarrow> int" where
  "recorded_count license =
     (case license ''reactivation_count'' of Some (JInt n) \<Rightarrow> n | _ \<Rightarrow> 0)"

definition count_is_integer :: "license_data \<Rightarrow> bool" where
  "count_is_integer license =
     (case license ''reactivation_count'' of None \<Rightarrow> True | Some (JInt n) \<Rightarrow> True | _ \<Rightarrow> False)"

text \<open>A license and two readings of the clock for the worked examples.\<close>

definition sample_license :: license_data where
  "sample_license =
     [''license_key'' \<mapsto> JStr ''00000000000000000000000000000000'',
      ''hardware_fingerprint'' \<mapsto> JStr ''AB12CD34EF56GH78'',
      ''company_name'' \<mapsto> JStr ''Acme Corp'',
      ''contact_email'' \<mapsto> JStr ''ops@acme.com'',
      ''created_date'' \<mapsto> JStr ''2024-01-10T00:00:00'',
      ''expires_date'' \<mapsto> JStr ''2024-02-09T00:00:00'',
      ''status'' \<mapsto> JStr ''active'']"

definition perpetual_license :: license_data where
  "perpetual_license = sample_license(''expires_date'' \<mapsto> JStr ''9999-12-31T23:59:59'')"

definition utc_license :: license_data where
  "utc_license = sample_license(''expires_date'' \<mapsto> JStr ''2020-01-01T00:00:00Z'')"

definition sample_now :: datetime where
  "sample_now = Datetime 63842817600000000 None"

definition sample_later :: datetime where
  "sample_later = Datetime 63842821200000000 None"

text \<open>
  The test that the loop of \<open>find_expiring_licenses\<close> applies to one license: its status
  is active, it has an \<open>expires_date\<close>, and the comparison with the cutoff succeeds and
  holds.
\<close>

definition kept_by_scan :: "pylib \<Rightarrow> datetime \<Rightarrow> license_data \<Rightarrow> bool" where
  "kept_by_scan lib cutoff_date license =
     (license ''status'' = Some (JStr ''active'') \<and>
      json_truthy (license ''expires_date'') \<and>
      (case license ''expires_date'' of
         None \<Rightarrow> False
       | Some v \<Rightarrow> expires_by lib cutoff_date v = Inr True))"

section \<open>The failures of each field of a request, taken alone\<close>

text \<open>
  What the validation of one field reports, as a function of that field only: a
  fingerprint must be present and well formed, a company name present and of at least
  two characters, an email address present and well formed.
\<close>

definition fingerprint_errors :: "string option \<Rightarrow> string list" where
  "fingerprint_errors f =
     (case f of
        None \<Rightarrow> [''Hardware fingerprint not found'']
      | Some x \<Rightarrow>
          if x = [] then [''Hardware fingerprint not found'']
          else if validate_hardware_fingerprint x then []
          else [''Invalid hardware fingerprint format''])"

definition company_errors :: "string option \<Rightarrow> string list" where
  "company_errors c =
     (case c of
        None \<Rightarrow> [''Company name not found'']
      | Some x \<Rightarrow>
          if x = [] then [''Company name not found'']
          else if 2 \<le> length x then []
          else [''Company name too short''])"

definition email_errors :: "string option \<Rightarrow> string list" where
  "email_errors e =
     (case e of
        None \<Rightarrow> [''Contact email not found'']
      | Some x \<Rightarrow>
          if x = [] then [''Contact email not found'']
          else if validate_email x then []
          else [''Invalid email format''])"

section \<open>The comparison of versions, as the specification words it\<close>

text \<open>
  Both versions are split at the dots and read as integers; the shorter tuple is padded
  with zeros to the length of the longer; the tuples are compared component by
  component from the left. A component that is not a number makes the result 0.
\<close>

fun componentwise :: "int list \<Rightarrow> int list \<Rightarrow> int" where
  "componentwise (x # xs) (y # ys) =
     (if x > y then 1 else if x < y then - 1 else componentwise xs ys)"
| "componentwise _ _ = 0"

definition zero_pad :: "nat \<Rightarrow> int list \<Rightarrow> int list" where
  "zero_pad n xs = xs @ replicate (n - length xs) 0"

definition spec_compare :: "(string \<Rightarrow> int option) \<Rightarrow> string \<Rightarrow> string \<Rightarrow> int" where
  "spec_compare to_int a b =
     (case (those (map to_int (py_split (CHR ''.'') a)),
            those (map to_int (py_split (CHR ''.'') b))) of
        (Some xs, Some ys) \<Rightarrow>
          componentwise (zero_pad (max (length xs) (length ys)) xs)
                        (zero_pad (max (length xs) (length ys)) ys)
      | _ \<Rightarrow> 0)"

section \<open>Substrings\<close>

lemma startswith_iff: "startswith s sub \<longleftrightarrow> (\<exists>q. s = sub @ q)"
proof (induction s sub rule: startswith.induct)
  case (1 s) show ?case by simp
next
  case (2 p ps) show ?case by simp
next
  case (3 c cs p ps) then show ?case by auto
qed

lemma py_in_iff: "py_in sub s \<longleftrightarrow> (\<exists>p q. s = p @ sub @ q)"
proof (induction s)
  case Nil show ?case by auto
next
  case (Cons c cs)
  show ?case
  proof
    assume "py_in sub (c # cs)"
    then consider "startswith (c # cs) sub" | "py_in sub cs" by auto
    then show "\<exists>p q. c # cs = p @ sub @ q"
    proof cases
      case 1
      then obtain q where "c # cs = sub @ q" using startswith_iff by blast
      then have "c # cs = [] @ sub @ q" by simp
      then show ?thesis by blast
    next
      case 2
      then obtain p q where "cs = p @ sub @ q" using Cons.IH by blast
      then have "c # cs = (c # p) @ sub @ q" by simp
      then show ?thesis by blast
    qed
  next
    assume "\<exists>p q. c # cs = p @ sub @ q"
    then obtain p q where pq: "c # cs = p @ sub @ q" by blast
    show "py_in sub (c # cs)"
    proof (cases p)
      case Nil
      with pq have "startswith (c # cs) sub" using startswith_iff by auto
      then show ?thesis by simp
    next
      case (Cons x xs)
      with pq have "cs = xs @ sub @ q" by simp
      then have "py_in sub cs" using Cons.IH by blast
      then show ?thesis by simp
    qed
  qed
qed

lemma py_in_middle: "py_in sub (p @ sub @ q)"
  using py_in_iff by blast

section \<open>The version policy\<close>

text \<open>
  C5. When no client version is provided (the argument is \<open>None\<close> or the empty string):
  a reactivation under a policy that allows older reactivations is valid and
  warning-only, with the message that the version was not provided but is allowed; in
  every other case the decision is invalid and carries the message that no version
  information was provided.
\<close>

theorem validate_version_no_version:
  "\<not> str_truthy cv \<Longrightarrow>
     (reactivation \<and> allow \<longrightarrow>
        valid (validate_version to_int cv minimum latest reactivation allow) \<and>
        warning_only (validate_version to_int cv minimum latest reactivation allow) \<and>
        message (validate_version to_int cv minimum latest reactivation allow) =
          ''Reactivation request - version not provided but allowed for existing licenses'') \<and>
     (\<not> (reactivation \<and> allow) \<longrightarrow>
        \<not> valid (validate_version to_int cv minimum latest reactivation allow) \<and>
        \<not> warning_only (validate_version to_int cv minimum latest reactivation allow) \<and>
        message (validate_version to_int cv minimum latest reactivation allow) =
          ''No software version information provided in request'')"
  by (auto simp add: validate_version_def Let_def)

theorem validate_version_no_version_witness:
  "valid (validate_version py_int None ''3.2.4'' ''3.2.4'' True True) \<and>
   warning_only (validate_version py_int None ''3.2.4'' ''3.2.4'' True True) \<and>
   message (validate_version py_int None ''3.2.4'' ''3.2.4'' True True) =
     ''Reactivation request - version not provided but allowed for existing licenses'' \<and>
   \<not> valid (validate_version py_int (Some []) ''3.2.4'' ''3.2.4'' False True) \<and>
   message (validate_version py_int (Some []) ''3.2.4'' ''3.2.4'' False True) =
     ''No software version information provided in request''"
  using validate_version_no_version [of None True True py_int "''3.2.4''" "''3.2.4''"]
        validate_version_no_version [of "Some []" False True py_int "''3.2.4''" "''3.2.4''"]
  by simp

text \<open>
  C4. For a provided client version \<open>v\<close> on the new-activation path (the request is not a
  reactivation, or the policy does not allow older reactivations): the decision is
  valid exactly when \<open>v\<close> compares greater than or equal to the minimum; when it is valid
  and \<open>v\<close> compares below the latest version it is valid and warning-only; when it is
  invalid the message names the minimum and the latest version.
\<close>

theorem validate_version_new_activation:
  "v \<noteq> [] \<Longrightarrow> \<not> (reactivation \<and> allow) \<Longrightarrow>
     (valid (validate_version to_int (Some v) minimum latest reactivation allow) \<longleftrightarrow>
        compare_versions to_int v minimum \<ge> 0) \<and>
     (compare_versions to_int v minimum \<ge> 0 \<and> compare_versions to_int v latest < 0 \<longrightarrow>
        valid (validate_version to_int (Some v) minimum latest reactivation allow) \<and>
        warning_only (validate_version to_int (Some v) minimum latest reactivation allow)) \<and>
     (compare_versions to_int v minimum < 0 \<longrightarrow>
        \<not> valid (validate_version to_int (Some v) minimum latest reactivation allow) \<and>
        message (validate_version to_int (Some v) minimum latest reactivation allow) =
          ''Version '' @ v @ '' is outdated. Minimum required: '' @ minimum @ ''. Latest: '' @
          latest @ ''. Please update software before activation.'' \<and>
        py_in minimum (message (validate_version to_int (Some v) minimum latest reactivation allow)) \<and>
        py_in latest (message (validate_version to_int (Some v) minimum latest reactivation allow)))"
proof -
  assume v: "v \<noteq> []" and na: "\<not> (reactivation \<and> allow)"
  let ?r = "validate_version to_int (Some v) minimum latest reactivation allow"
  let ?m = "''Version '' @ v @ '' is outdated. Minimum required: '' @ minimum @ ''. Latest: '' @
          latest @ ''. Please update software before activation.''"
  have 1: "valid ?r \<longleftrightarrow> compare_versions to_int v minimum \<ge> 0"
    using v na by (auto simp add: validate_version_def Let_def)
  have 2: "compare_versions to_int v minimum \<ge> 0 \<and> compare_versions to_int v latest < 0 \<longrightarrow>
        valid ?r \<and> warning_only ?r"
    using v na by (auto simp add: validate_version_def Let_def)
  have 3: "compare_versions to_int v minimum < 0 \<longrightarrow> message ?r = ?m"
    using v na by (auto simp add: validate_version_def Let_def)
  have 4: "py_in minimum ?m"
    using py_in_middle [of minimum "''Version '' @ v @ '' is outdated. Minimum required: ''"
        "''. Latest: '' @ latest @ ''. Please update software before activation.''"]
    by simp
  have 5: "py_in latest ?m"
    using py_in_middle [of latest
        "''Version '' @ v @ '' is outdated. Minimum required: '' @ minimum @ ''. Latest: ''"
        "''. Please update software before activation.''"]
    by simp
  show ?thesis using 1 2 3 4 5 by auto
qed

theorem validate_version_new_activation_witness:
  "\<not> valid (validate_version py_int (Some ''3.0.0'') ''3.2.4'' ''3.2.4'' False True) \<and>
   message (validate_version py_int (Some ''3.0.0'') ''3.2.4'' ''3.2.4'' False True) =
     ''Version 3.0.0 is outdated. Minimum required: 3.2.4. Latest: 3.2.4. Please update software before activation.'' \<and>
   valid (validate_version py_int (Some ''3.2.5'') ''3.2.4'' ''3.3.0'' False True) \<and>
   warning_only (validate_version py_int (Some ''3.2.5'') ''3.2.4'' ''3.3.0'' False True)"
proof -
  have a: "compare_versions py_int ''3.0.0'' ''3.2.4'' = - 1" by code_simp
  have b: "compare_versions py_int ''3.2.5'' ''3.2.4'' = 1" by code_simp
  have c: "compare_versions py_int ''3.2.5'' ''3.3.0'' = - 1" by code_simp
  show ?thesis
    using validate_version_new_activation [of "''3.0.0''" False True py_int "''3.2.4''" "''3.2.4''"]
          validate_version_new_activation [of "''3.2.5''" False True py_int "''3.2.4''" "''3.3.0''"]
          a b c
    by simp
qed

section \<open>The comparison of versions\<close>

lemma int_parts_those:
  "int_parts to_int xs =
     (case those (map to_int xs) of None \<Rightarrow> Inl ValueError | Some ns \<Rightarrow> Inr ns)"
  by (induction xs) (auto split: option.splits)

lemma pad_parts_replicate:
  "pad_parts parts other = parts @ replicate (length other - length parts) 0"
proof (induction parts other rule: pad_parts.induct)
  case (1 parts other)
  show ?case
  proof (cases "length parts < length other")
    case True
    then have "length other - length parts = Suc (length other - length (parts @ [0]))"
      by simp
    with True 1 show ?thesis
      by (simp add: pad_parts.simps [of parts other] replicate_append_same)
  next
    case False
    then show ?thesis by (simp add: pad_parts.simps [of parts other])
  qed
qed

lemma compare_from_componentwise:
  "length a = length b \<Longrightarrow> compare_from i a b = Inr (componentwise (drop i a) (drop i b))"
proof (induction i a b rule: compare_from.induct)
  case (1 i a b)
  show ?case
  proof (cases "i < length a")
    case True
    with 1(2) have ib: "i < length b" by simp
    have da: "drop i a = a ! i # drop (Suc i) a" using True by (simp add: Cons_nth_drop_Suc)
    have db: "drop i b = b ! i # drop (Suc i) b" using ib by (simp add: Cons_nth_drop_Suc)
    show ?thesis
    proof (cases "a ! i = b ! i")
      case True
      with 1 \<open>i < length a\<close> ib da db show ?thesis
        by (simp add: compare_from.simps [of i a b])
    next
      case False
      with \<open>i < length a\<close> ib da db show ?thesis
        by (auto simp add: compare_from.simps [of i a b])
    qed
  next
    case False
    then show ?thesis using 1(2) by (simp add: compare_from.simps [of i a b])
  qed
qed

lemma padded_compare:
  "compare_from 0 (pad_parts xs ys) (pad_parts ys (pad_parts xs ys)) =
     Inr (componentwise (zero_pad (max (length xs) (length ys)) xs)
                        (zero_pad (max (length xs) (length ys)) ys))"
proof -
  let ?n = "max (length xs) (length ys)"
  have p1: "pad_parts xs ys = zero_pad ?n xs"
    by (simp add: pad_parts_replicate zero_pad_def max_def)
  have p2: "pad_parts ys (zero_pad ?n xs) = zero_pad ?n ys"
    by (simp add: pad_parts_replicate zero_pad_def max_def)
  have len: "length (zero_pad ?n xs) = length (zero_pad ?n ys)"
    by (simp add: zero_pad_def max_def)
  show ?thesis
    unfolding p1 p2 using compare_from_componentwise [OF len, of 0] by simp
qed


lemma compare_versions_spec: "compare_versions to_int a b = spec_compare to_int a b"
proof (cases "those (map to_int (py_split (CHR ''.'') a))")
  case None
  then show ?thesis
    by (simp add: compare_versions_def compare_try_def spec_compare_def int_parts_those)
next
  case (Some xs)
  note xs = this
  show ?thesis
  proof (cases "those (map to_int (py_split (CHR ''.'') b))")
    case None
    with xs show ?thesis
      by (simp add: compare_versions_def compare_try_def spec_compare_def int_parts_those)
  next
    case (Some ys)
    with xs show ?thesis
      by (simp add: compare_versions_def compare_try_def spec_compare_def int_parts_those
            padded_compare Let_def)
  qed
qed

lemma componentwise_flip: "componentwise xs ys = - componentwise ys xs"
  by (induction xs ys rule: componentwise.induct) auto

lemma spec_compare_flip: "spec_compare to_int a b = - spec_compare to_int b a"
proof (cases "those (map to_int (py_split (CHR ''.'') a))")
  case None
  then show ?thesis by (simp add: spec_compare_def split: option.splits)
next
  case (Some xs)
  note xs = this
  show ?thesis
  proof (cases "those (map to_int (py_split (CHR ''.'') b))")
    case None
    then show ?thesis by (simp add: spec_compare_def split: option.splits)
  next
    case (Some ys)
    let ?n = "max (length xs) (length ys)"
    have ab: "spec_compare to_int a b = componentwise (zero_pad ?n xs) (zero_pad ?n ys)"
      using xs Some by (simp add: spec_compare_def)
    have ba: "spec_compare to_int b a = componentwise (zero_pad ?n ys) (zero_pad ?n xs)"
      using xs Some by (simp add: spec_compare_def max.commute)
    show ?thesis
      unfolding ab ba by (rule componentwise_flip)
  qed
qed

text \<open>
  C7. \<open>compare_versions\<close> is the component-wise comparison, from the left, of the two
  versions split at the dots and read as integers, the shorter padded with zeros to the
  length of the longer, and 0 when a component is not a number; \<open>3.2.0\<close> against \<open>3.2\<close>
  gives 0, \<open>3.3.0\<close> against \<open>3.2.9\<close> gives 1; and exchanging the two versions negates
  the result (for all pairs, so also for those with the same number of components).
\<close>

theorem compare_versions_componentwise:
  "compare_versions to_int a b = spec_compare to_int a b \<and>
   compare_versions py_int ''3.2.0'' ''3.2'' = 0 \<and>
   compare_versions py_int ''3.3.0'' ''3.2.9'' = 1 \<and>
   compare_versions to_int a b = - compare_versions to_int b a"
proof -
  have 1: "compare_versions py_int ''3.2.0'' ''3.2'' = 0" by code_simp
  have 2: "compare_versions py_int ''3.3.0'' ''3.2.9'' = 1" by code_simp
  have 3: "compare_versions to_int a b = - compare_versions to_int b a"
    unfolding compare_versions_spec by (rule spec_compare_flip)
  have 4: "compare_versions to_int a b = spec_compare to_int a b"
    by (rule compare_versions_spec)
  from 4 1 2 3 show ?thesis by (intro conjI)
qed

theorem compare_versions_componentwise_witness:
  "compare_versions py_int ''3.2.4'' ''3.10'' = spec_compare py_int ''3.2.4'' ''3.10'' \<and>
   compare_versions py_int ''3.2.4'' ''3.10'' = - 1 \<and>
   compare_versions py_int ''3.10'' ''3.2.4'' = 1 \<and>
   compare_versions py_int ''3.x'' ''3.2.4'' = 0"
proof -
  have 1: "compare_versions py_int ''3.2.4'' ''3.10'' = - 1" by code_simp
  have 2: "compare_versions py_int ''3.x'' ''3.2.4'' = 0" by code_simp
  have 3: "compare_versions py_int ''3.2.4'' ''3.10'' = spec_compare py_int ''3.2.4'' ''3.10''"
    using compare_versions_componentwise [of py_int "''3.2.4''" "''3.10''"] by (rule conjunct1)
  have 4: "compare_versions py_int ''3.2.4'' ''3.10'' = - compare_versions py_int ''3.10'' ''3.2.4''"
    using compare_versions_componentwise [of py_int "''3.2.4''" "''3.10''"] by blast
  have 5: "compare_versions py_int ''3.10'' ''3.2.4'' = 1"
    using 1 4 by linarith
  from 3 1 5 2 show ?thesis by (intro conjI)
qed

section \<open>The classification of requests\<close>

lemma py_in_lower_iff:
  "py_in w (py_lower s) \<longleftrightarrow> (\<exists>p m q. s = p @ m @ q \<and> py_lower m = w)"
proof
  assume "py_in w (py_lower s)"
  then obtain p' q' where "p' @ (w @ q') = map py_lower_char s"
    unfolding py_in_iff py_lower_def by metis
  then obtain p r where s1: "s = p @ r" and r: "w @ q' = map py_lower_char r"
    unfolding append_eq_map_conv by blast
  from r obtain m q where "r = m @ q" and "w = map py_lower_char m"
    unfolding append_eq_map_conv by blast
  with s1 show "\<exists>p m q. s = p @ m @ q \<and> py_lower m = w"
    unfolding py_lower_def by blast
next
  assume "\<exists>p m q. s = p @ m @ q \<and> py_lower m = w"
  then obtain p m q where "s = p @ m @ q" and "py_lower m = w" by blast
  then have "py_lower s = py_lower p @ w @ py_lower q"
    by (simp add: py_lower_def)
  then show "py_in w (py_lower s)"
    using py_in_middle by simp
qed

lemma py_in_auto_reactivation:
  "py_in ''auto-reactivation'' s \<Longrightarrow> py_in ''reactivation'' s"
proof -
  assume "py_in ''auto-reactivation'' s"
  then obtain p q where "s = p @ ''auto-reactivation'' @ q" unfolding py_in_iff by blast
  then have "s = (p @ ''auto-'') @ ''reactivation'' @ q" by simp
  then show ?thesis unfolding py_in_iff by blast
qed

lemma is_reactivation_request_iff:
  "is_reactivation_request title body \<longleftrightarrow>
     py_in ''reactivation'' (py_lower title) \<or> py_in ''reactivation'' (py_lower body)"
proof -
  have "\<not> py_in ''reactivation'' (py_lower [])" by (simp add: py_lower_def)
  then show ?thesis
    using py_in_auto_reactivation [of "py_lower title"]
    by (auto simp add: is_reactivation_request_def)
qed

lemma validate_version_lenient:
  "valid (validate_version to_int cv minimum latest True True)"
  by (simp add: validate_version_def Let_def)

text \<open>
  C10, as amended. A request is classified as a reactivation exactly when some part of
  the title or of the body is the word \<open>reactivation\<close> up to the case of its letters.
  When the body contains the word and the policy allows older reactivations (as it does
  unless the configuration says otherwise), the request is decided under the
  reactivation branch: it is valid and the check passes, whatever version it reports.
  When the body contains the word and the policy does not allow older reactivations,
  the request is still classified as a reactivation and is decided by the
  minimum-version rule: it is valid exactly when the body reports a version that
  compares greater than or equal to the minimum, and the check fails when it is
  invalid and the check is enforced.
\<close>

theorem reactivation_by_substring:
  "(is_reactivation_request title body \<longleftrightarrow>
      (\<exists>p m q. title = p @ m @ q \<and> py_lower m = ''reactivation'') \<or>
      (\<exists>p m q. body = p @ m @ q \<and> py_lower m = ''reactivation'')) \<and>
   ((\<exists>p m q. body = p @ m @ q \<and> py_lower m = ''reactivation'') \<and>
    cfg_allow_older_reactivations config \<noteq> Some False \<longrightarrow>
      is_reactivation (fst (main_version to_int config title body)) \<and>
      valid (fst (main_version to_int config title body)) \<and>
      snd (main_version to_int config title body) = 0) \<and>
   ((\<exists>p m q. body = p @ m @ q \<and> py_lower m = ''reactivation'') \<and>
    cfg_allow_older_reactivations config = Some False \<longrightarrow>
      is_reactivation (fst (main_version to_int config title body)) \<and>
      (valid (fst (main_version to_int config title body)) \<longleftrightarrow>
         (case extract_version_from_body body of
            None \<Rightarrow> False
          | Some v \<Rightarrow>
              v \<noteq> [] \<and>
              0 \<le> compare_versions to_int v
                    (case cfg_minimum_version config of None \<Rightarrow> ''3.2.4'' | Some m \<Rightarrow> m))) \<and>
      snd (main_version to_int config title body) =
        (if (case cfg_enforce_version_check config of None \<Rightarrow> True | Some b \<Rightarrow> b) \<and>
            \<not> valid (fst (main_version to_int config title body))
         then 1 else 0))"
proof -
  have 1: "is_reactivation_request title body \<longleftrightarrow>
      (\<exists>p m q. title = p @ m @ q \<and> py_lower m = ''reactivation'') \<or>
      (\<exists>p m q. body = p @ m @ q \<and> py_lower m = ''reactivation'')"
    unfolding is_reactivation_request_iff py_in_lower_iff by (rule refl)
  have 2: "is_reactivation (fst (main_version to_int config title body)) \<and>
      valid (fst (main_version to_int config title body)) \<and>
      snd (main_version to_int config title body) = 0"
    if b: "\<exists>p m q. body = p @ m @ q \<and> py_lower m = ''reactivation''"
      and c: "cfg_allow_older_reactivations config \<noteq> Some False"
  proof -
    from b 1 have r: "is_reactivation_request title body" by blast
    from c have a: "(case cfg_allow_older_reactivations config of None \<Rightarrow> True | Some b \<Rightarrow> b) = True"
      by (cases "cfg_allow_older_reactivations config") auto
    have ir: "is_reactivation (validate_version to_int cv mn lt True True)" for cv mn lt
      by (simp add: validate_version_def Let_def)
    show ?thesis
      using r a validate_version_lenient ir by (simp add: main_version_def Let_def)
  qed
  have 3: "(\<exists>p m q. body = p @ m @ q \<and> py_lower m = ''reactivation'') \<and>
    cfg_allow_older_reactivations config \<noteq> Some False \<longrightarrow>
      is_reactivation (fst (main_version to_int config title body)) \<and>
      valid (fst (main_version to_int config title body)) \<and>
      snd (main_version to_int config title body) = 0"
  proof (rule impI)
    assume h: "(\<exists>p m q. body = p @ m @ q \<and> py_lower m = ''reactivation'') \<and>
      cfg_allow_older_reactivations config \<noteq> Some False"
    show "is_reactivation (fst (main_version to_int config title body)) \<and>
      valid (fst (main_version to_int config title body)) \<and>
      snd (main_version to_int config title body) = 0"
      by (rule 2 [OF conjunct1 [OF h] conjunct2 [OF h]])
  qed
  have 4: "(\<exists>p m q. body = p @ m @ q \<and> py_lower m = ''reactivation'') \<and>
    cfg_allow_older_reactivations config = Some False \<longrightarrow>
      is_reactivation (fst (main_version to_int config title body)) \<and>
      (valid (fst (main_version to_int config title body)) \<longleftrightarrow>
         (case extract_version_from_body body of
            None \<Rightarrow> False
          | Some v \<Rightarrow>
              v \<noteq> [] \<and>
              0 \<le> compare_versions to_int v
                    (case cfg_minimum_version config of None \<Rightarrow> ''3.2.4'' | Some m \<Rightarrow> m))) \<and>
      snd (main_version to_int config title body) =
        (if (case cfg_enforce_version_check config of None \<Rightarrow> True | Some b \<Rightarrow> b) \<and>
            \<not> valid (fst (main_version to_int config title body))
         then 1 else 0)"
  proof (rule impI)
    assume h: "(\<exists>p m q. body = p @ m @ q \<and> py_lower m = ''reactivation'') \<and>
      cfg_allow_older_reactivations config = Some False"
    from h 1 have r: "is_reactivation_request title body" by blast
    from h have a: "cfg_allow_older_reactivations config = Some False" by (rule conjunct2)
    show "is_reactivation (fst (main_version to_int config title body)) \<and>
      (valid (fst (main_version to_int config title body)) \<longleftrightarrow>
         (case extract_version_from_body body of
            None \<Rightarrow> False
          | Some v \<Rightarrow>
              v \<noteq> [] \<and>
              0 \<le> compare_versions to_int v
                    (case cfg_minimum_version config of None \<Rightarrow> ''3.2.4'' | Some m \<Rightarrow> m))) \<and>
      snd (main_version to_int config title body) =
        (if (case cfg_enforce_version_check config of None \<Rightarrow> True | Some b \<Rightarrow> b) \<and>
            \<not> valid (fst (main_version to_int config title body))
         then 1 else 0)"
      using r a
      by (cases "extract_version_from_body body")
         (auto simp add: main_version_def validate_version_def Let_def)
  qed
  from 1 3 4 show ?thesis by (intro conjI)
qed

theorem reactivation_by_substring_witness:
  "is_reactivation_request ''Auto-Activation Request - Acme Corp - AB12CD34EF56GH78''
     ''Notes: this is not a reactivation\<newline>Software Version: 3.0.0'' \<and>
   valid (fst (main_version py_int default_config
     ''Auto-Activation Request - Acme Corp - AB12CD34EF56GH78''
     ''Notes: this is not a reactivation\<newline>Software Version: 3.0.0'')) \<and>
   snd (main_version py_int default_config
     ''Auto-Activation Request - Acme Corp - AB12CD34EF56GH78''
     ''Notes: this is not a reactivation\<newline>Software Version: 3.0.0'') = 0 \<and>
   is_reactivation (fst (main_version py_int strict_config
     ''Auto-Activation Request - Acme Corp - AB12CD34EF56GH78''
     ''Notes: this is not a reactivation\<newline>Software Version: 3.0.0'')) \<and>
   \<not> valid (fst (main_version py_int strict_config
     ''Auto-Activation Request - Acme Corp - AB12CD34EF56GH78''
     ''Notes: this is not a reactivation\<newline>Software Version: 3.0.0'')) \<and>
   snd (main_version py_int strict_config
     ''Auto-Activation Request - Acme Corp - AB12CD34EF56GH78''
     ''Notes: this is not a reactivation\<newline>Software Version: 3.0.0'') = 1"
proof -
  have "''Notes: this is not a reactivation\<newline>Software Version: 3.0.0'' =
        ''Notes: this is not a '' @ ''reactivation'' @ ''\<newline>Software Version: 3.0.0''"
    by simp
  moreover have "py_lower ''reactivation'' = ''reactivation''" by code_simp
  ultimately have b: "\<exists>p m q. ''Notes: this is not a reactivation\<newline>Software Version: 3.0.0'' = p @ m @ q \<and>
      py_lower m = ''reactivation''" by blast
  have c: "cfg_allow_older_reactivations default_config \<noteq> Some False"
    by (simp add: default_config_def)
  have d: "cfg_allow_older_reactivations strict_config = Some False"
    by (simp add: strict_config_def)
  have m: "cfg_minimum_version strict_config = Some ''3.2.4''"
    by (simp add: strict_config_def default_config_def)
  have n: "cfg_enforce_version_check strict_config = Some True"
    by (simp add: strict_config_def default_config_def)
  have v: "extract_version_from_body
             ''Notes: this is not a reactivation\<newline>Software Version: 3.0.0'' = Some ''3.0.0''"
    by code_simp
  have k: "compare_versions py_int ''3.0.0'' ''3.2.4'' = - 1"
    by code_simp
  have lenient:
    "is_reactivation_request ''Auto-Activation Request - Acme Corp - AB12CD34EF56GH78''
       ''Notes: this is not a reactivation\<newline>Software Version: 3.0.0'' \<and>
     valid (fst (main_version py_int default_config
       ''Auto-Activation Request - Acme Corp - AB12CD34EF56GH78''
       ''Notes: this is not a reactivation\<newline>Software Version: 3.0.0'')) \<and>
     snd (main_version py_int default_config
       ''Auto-Activation Request - Acme Corp - AB12CD34EF56GH78''
       ''Notes: this is not a reactivation\<newline>Software Version: 3.0.0'') = 0"
    using reactivation_by_substring [of "''Auto-Activation Request - Acme Corp - AB12CD34EF56GH78''"
        "''Notes: this is not a reactivation\<newline>Software Version: 3.0.0''" default_config py_int] b c
    by simp
  have strict:
    "is_reactivation (fst (main_version py_int strict_config
       ''Auto-Activation Request - Acme Corp - AB12CD34EF56GH78''
       ''Notes: this is not a reactivation\<newline>Software Version: 3.0.0'')) \<and>
     \<not> valid (fst (main_version py_int strict_config
       ''Auto-Activation Request - Acme Corp - AB12CD34EF56GH78''
       ''Notes: this is not a reactivation\<newline>Software Version: 3.0.0'')) \<and>
     snd (main_version py_int strict_config
       ''Auto-Activation Request - Acme Corp - AB12CD34EF56GH78''
       ''Notes: this is not a reactivation\<newline>Software Version: 3.0.0'') = 1"
    using reactivation_by_substring [of "''Auto-Activation Request - Acme Corp - AB12CD34EF56GH78''"
        "''Notes: this is not a reactivation\<newline>Software Version: 3.0.0''" strict_config py_int] b d
    by (simp add: m n v k)
  from lenient strict show ?thesis by simp
qed

text \<open>
  The claim as stated has no condition on the policy. Under a policy that does not allow
  older reactivations, a request whose body mentions the word is classified as a
  reactivation and still decided by the minimum-version rule: it is rejected.
\<close>

theorem reactivation_strict_policy_counterexample:
  "main_version py_int strict_config
     ''Auto-Activation Request - Acme Corp - AB12CD34EF56GH78''
     ''Notes: this is not a reactivation\<newline>Software Version: 3.0.0'' =
   (\<lparr>valid = False, client_version = ''3.0.0'', minimum_version = ''3.2.4'',
     latest_version = ''3.2.4'', is_latest = False, is_acceptable = False,
     is_reactivation = True,
     message = ''Version 3.0.0 is outdated. Minimum required: 3.2.4. Latest: 3.2.4. Please update software before activation.'',
     warning_only = False\<rparr>, 1)"
  by code_simp

section \<open>The validation of requests\<close>

lemma extract_title_errors: "errors (extract_title title info) = errors info"
  by (simp add: extract_title_def split: option.splits list.splits)

lemma extract_body_errors: "errors (extract_body body info) = errors info"
  by (simp add: extract_body_def Let_def split: option.splits)

lemma check_fingerprint_effect:
  "check_fingerprint info = info\<lparr>errors := errors info @ fingerprint_errors (fingerprint info)\<rparr>"
  by (simp add: check_fingerprint_def fingerprint_errors_def append_error_def split: option.splits)

lemma check_company_effect:
  "check_company info = info\<lparr>errors := errors info @ company_errors (company info)\<rparr>"
  by (simp add: check_company_def company_errors_def append_error_def split: option.splits)

lemma check_email_effect:
  "check_email info = info\<lparr>errors := errors info @ email_errors (email info)\<rparr>"
  by (simp add: check_email_def email_errors_def append_error_def split: option.splits)

lemma extract_issue_info_errors:
  "errors (extract_issue_info title body) =
     fingerprint_errors (fingerprint (extract_issue_info title body)) @
     company_errors (company (extract_issue_info title body)) @
     email_errors (email (extract_issue_info title body))"
  by (simp add: extract_issue_info_def Let_def check_fingerprint_effect check_company_effect
        check_email_effect extract_title_errors extract_body_errors)

lemma extract_issue_info_valid:
  "issue_info.valid (extract_issue_info title body) \<longleftrightarrow> errors (extract_issue_info title body) = []"
  by (simp add: extract_issue_info_def Let_def)

text \<open>
  C8. The errors that \<open>extract_issue_info\<close> returns are the failures of the fingerprint,
  followed by those of the company name, followed by those of the email address, each
  determined by its own field alone: no failure hides another. The result is valid
  exactly when this list is empty. A title without a company, over a body with a valid
  fingerprint and an email address without \<open>@\<close>, gives exactly the two errors
  \<open>Company name not found\<close> and \<open>Invalid email format\<close>.
\<close>

theorem extract_issue_info_collects_all:
  "errors (extract_issue_info title body) =
     fingerprint_errors (fingerprint (extract_issue_info title body)) @
     company_errors (company (extract_issue_info title body)) @
     email_errors (email (extract_issue_info title body)) \<and>
   (issue_info.valid (extract_issue_info title body) \<longleftrightarrow>
      errors (extract_issue_info title body) = []) \<and>
   extract_issue_info ''Auto-Activation Request''
       ''Hardware Fingerprint: AB12CD34EF56GH78\<newline>Email: opsacme.com'' =
     \<lparr>fingerprint = Some ''AB12CD34EF56GH78'', company = None, email = Some ''opsacme.com'',
      name = None, valid = False,
      errors = [''Company name not found'', ''Invalid email format'']\<rparr>"
proof -
  have "extract_issue_info ''Auto-Activation Request''
       ''Hardware Fingerprint: AB12CD34EF56GH78\<newline>Email: opsacme.com'' =
     \<lparr>fingerprint = Some ''AB12CD34EF56GH78'', company = None, email = Some ''opsacme.com'',
      name = None, valid = False,
      errors = [''Company name not found'', ''Invalid email format'']\<rparr>"
    by code_simp
  with extract_issue_info_errors [of title body] extract_issue_info_valid [of title body]
  show ?thesis by (intro conjI)
qed

theorem extract_issue_info_collects_all_witness:
  "errors (extract_issue_info ''Auto-Activation Request - A - AB12''
       ''Email: ops@acme'') =
     [''Invalid hardware fingerprint format'', ''Company name too short'', ''Invalid email format''] \<and>
   \<not> issue_info.valid (extract_issue_info ''Auto-Activation Request - A - AB12'' ''Email: ops@acme'')"
proof -
  have i: "extract_issue_info ''Auto-Activation Request - A - AB12'' ''Email: ops@acme'' =
     \<lparr>fingerprint = Some ''AB12'', company = Some ''A'', email = Some ''ops@acme'',
      name = None, valid = False,
      errors = [''Invalid hardware fingerprint format'', ''Company name too short'',
                ''Invalid email format'']\<rparr>"
    by code_simp
  have f: "fingerprint_errors (Some ''AB12'') = [''Invalid hardware fingerprint format'']"
    by code_simp
  have c: "company_errors (Some ''A'') = [''Company name too short'']"
    by code_simp
  have e: "email_errors (Some ''ops@acme'') = [''Invalid email format'']"
    by code_simp
  show ?thesis
    using extract_issue_info_collects_all
      [of "''Auto-Activation Request - A - AB12''" "''Email: ops@acme''"]
    by (simp add: i f c e)
qed

section \<open>Reactivation\<close>

text \<open>
  C9. Reactivation leaves every field other than \<open>expires_date\<close>, \<open>last_reactivated\<close>,
  \<open>reactivation_count\<close> and \<open>status\<close> as it was, whether the call returns or raises; in
  particular \<open>license_key\<close>, \<open>created_date\<close>, \<open>hardware_fingerprint\<close>, \<open>company_name\<close>
  and \<open>contact_email\<close>.
\<close>

theorem reactivate_license_frame:
  "(k \<notin> {''expires_date'', ''last_reactivated'', ''reactivation_count'', ''status''} \<longrightarrow>
      snd (reactivate_license lib now license) k = license k) \<and>
   snd (reactivate_license lib now license) ''license_key'' = license ''license_key'' \<and>
   snd (reactivate_license lib now license) ''created_date'' = license ''created_date'' \<and>
   snd (reactivate_license lib now license) ''hardware_fingerprint'' =
     license ''hardware_fingerprint'' \<and>
   snd (reactivate_license lib now license) ''company_name'' = license ''company_name'' \<and>
   snd (reactivate_license lib now license) ''contact_email'' = license ''contact_email''"
proof -
  have f: "snd (reactivate_license lib now license) k = license k"
    if "k \<notin> {''expires_date'', ''last_reactivated'', ''reactivation_count'', ''status''}" for k
    using that
    by (auto simp add: reactivate_license_def Let_def split: option.splits sum.splits)
  have 1: "snd (reactivate_license lib now license) ''license_key'' = license ''license_key''"
    by (rule f) simp
  have 2: "snd (reactivate_license lib now license) ''created_date'' = license ''created_date''"
    by (rule f) simp
  have 3: "snd (reactivate_license lib now license) ''hardware_fingerprint'' =
     license ''hardware_fingerprint''"
    by (rule f) simp
  have 4: "snd (reactivate_license lib now license) ''company_name'' = license ''company_name''"
    by (rule f) simp
  have 5: "snd (reactivate_license lib now license) ''contact_email'' = license ''contact_email''"
    by (rule f) simp
  from f [of k] 1 2 3 4 5 show ?thesis by blast
qed

theorem reactivate_license_frame_witness:
  "snd (reactivate_license ref_lib sample_now sample_license) ''generated_by'' = None \<and>
   snd (reactivate_license ref_lib sample_now sample_license) ''license_key'' =
     Some (JStr ''00000000000000000000000000000000'') \<and>
   snd (reactivate_license ref_lib sample_now sample_license) ''created_date'' =
     Some (JStr ''2024-01-10T00:00:00'')"
  using reactivate_license_frame [of "''generated_by''" ref_lib sample_now sample_license]
  by (simp add: sample_license_def)

lemma add_days_in_range:
  "0 \<le> wall t \<Longrightarrow> 0 \<le> n \<Longrightarrow> n \<le> 999999999 \<Longrightarrow> wall t + n * us_per_day \<le> max_wall \<Longrightarrow>
     add_days t n = Inr (plus_days t n)"
  by (simp add: add_days_def timedelta_days_def datetime_add_def plus_days_def us_per_day_def)

lemma json_add1_count:
  "count_is_integer license \<Longrightarrow>
     json_add1 (case license ''reactivation_count'' of None \<Rightarrow> JInt 0 | Some c \<Rightarrow> c) =
       Inr (JInt (recorded_count license + 1))"
  by (auto simp add: count_is_integer_def recorded_count_def split: option.splits json.splits)

lemma reactivate_license_once:
  assumes e: "license ''expires_date'' = Some (JStr s)"
    and p: "fromisoformat lib (py_replace (CHR ''Z'') ''+00:00'' s) = Some t"
    and r0: "0 \<le> wall t" and r1: "wall t + 30 * us_per_day \<le> max_wall"
    and c: "count_is_integer license"
  shows "reactivate_license lib now license =
     (None, license(''expires_date'' \<mapsto> JStr (isoformat lib (plus_days t 30)),
                    ''last_reactivated'' \<mapsto> JStr (isoformat lib now),
                    ''reactivation_count'' \<mapsto> JInt (recorded_count license + 1),
                    ''status'' \<mapsto> JStr ''active''))"
proof -
  have a: "add_days t 30 = Inr (plus_days t 30)"
    using r0 r1 by (simp add: add_days_in_range)
  have j: "json_add1 (case license ''reactivation_count'' of None \<Rightarrow> JInt 0 | Some c \<Rightarrow> c) =
       Inr (JInt (recorded_count license + 1))"
    using c by (rule json_add1_count)
  show ?thesis
    using e p a j by (simp add: reactivate_license_def Let_def)
qed


lemma plus_days_plus_days: "plus_days (plus_days t m) n = plus_days t (m + n)"
  by (simp add: plus_days_def algebra_simps)

text \<open>
  C2, as amended. Let the license have an \<open>expires_date\<close> that parses to \<open>T\<close>, a time
  of the range of the type with \<open>T\<close> plus 30 days not beyond the last representable
  time, and a \<open>reactivation_count\<close> that is absent or an integer. Then reactivation returns, sets \<open>expires_date\<close> to \<open>T\<close> plus 30
  days, \<open>last_reactivated\<close> to now, \<open>reactivation_count\<close> to the recorded count (0 if
  absent) plus 1 and \<open>status\<close> to active. When moreover the date written reads back as
  itself and \<open>T\<close> plus 60 days is representable, a second reactivation, at any later
  reading of the clock, sets \<open>expires_date\<close> to \<open>T\<close> plus 60 days and the count to the
  recorded count plus 2.
\<close>

theorem reactivate_license_extends:
  assumes e: "license ''expires_date'' = Some (JStr s)"
    and p: "fromisoformat lib (py_replace (CHR ''Z'') ''+00:00'' s) = Some t"
    and r0: "0 \<le> wall t" and r1: "wall t + 30 * us_per_day \<le> max_wall"
    and c: "count_is_integer license"
  shows "fst (reactivate_license lib now license) = None \<and>
     snd (reactivate_license lib now license) ''expires_date'' =
       Some (JStr (isoformat lib (plus_days t 30))) \<and>
     snd (reactivate_license lib now license) ''last_reactivated'' =
       Some (JStr (isoformat lib now)) \<and>
     snd (reactivate_license lib now license) ''reactivation_count'' =
       Some (JInt (recorded_count license + 1)) \<and>
     snd (reactivate_license lib now license) ''status'' = Some (JStr ''active'') \<and>
     (fromisoformat lib (py_replace (CHR ''Z'') ''+00:00'' (isoformat lib (plus_days t 30))) =
        Some (plus_days t 30) \<and>
      wall t + 60 * us_per_day \<le> max_wall \<longrightarrow>
        fst (reactivate_license lib later (snd (reactivate_license lib now license))) = None \<and>
        snd (reactivate_license lib later (snd (reactivate_license lib now license)))
          ''expires_date'' = Some (JStr (isoformat lib (plus_days t 60))) \<and>
        snd (reactivate_license lib later (snd (reactivate_license lib now license)))
          ''last_reactivated'' = Some (JStr (isoformat lib later)) \<and>
        snd (reactivate_license lib later (snd (reactivate_license lib now license)))
          ''reactivation_count'' = Some (JInt (recorded_count license + 2)) \<and>
        snd (reactivate_license lib later (snd (reactivate_license lib now license)))
          ''status'' = Some (JStr ''active''))"
proof -
  let ?first = "reactivate_license lib now license"
  have first: "?first =
     (None, license(''expires_date'' \<mapsto> JStr (isoformat lib (plus_days t 30)),
                    ''last_reactivated'' \<mapsto> JStr (isoformat lib now),
                    ''reactivation_count'' \<mapsto> JInt (recorded_count license + 1),
                    ''status'' \<mapsto> JStr ''active''))"
    using e p r0 r1 c by (rule reactivate_license_once)
  have once: "fst ?first = None \<and>
     snd ?first ''expires_date'' = Some (JStr (isoformat lib (plus_days t 30))) \<and>
     snd ?first ''last_reactivated'' = Some (JStr (isoformat lib now)) \<and>
     snd ?first ''reactivation_count'' = Some (JInt (recorded_count license + 1)) \<and>
     snd ?first ''status'' = Some (JStr ''active'')"
    unfolding first by simp
  have twice: "fst (reactivate_license lib later (snd ?first)) = None \<and>
        snd (reactivate_license lib later (snd ?first)) ''expires_date'' =
          Some (JStr (isoformat lib (plus_days t 60))) \<and>
        snd (reactivate_license lib later (snd ?first)) ''last_reactivated'' =
          Some (JStr (isoformat lib later)) \<and>
        snd (reactivate_license lib later (snd ?first)) ''reactivation_count'' =
          Some (JInt (recorded_count license + 2)) \<and>
        snd (reactivate_license lib later (snd ?first)) ''status'' = Some (JStr ''active'')"
    if rt: "fromisoformat lib (py_replace (CHR ''Z'') ''+00:00'' (isoformat lib (plus_days t 30))) =
        Some (plus_days t 30)"
      and r2: "wall t + 60 * us_per_day \<le> max_wall"
  proof -
    have e': "snd ?first ''expires_date'' = Some (JStr (isoformat lib (plus_days t 30)))"
      using once by blast
    have r0': "0 \<le> wall (plus_days t 30)"
      using r0 by (simp add: plus_days_def us_per_day_def)
    have r1': "wall (plus_days t 30) + 30 * us_per_day \<le> max_wall"
      using r2 by (simp add: plus_days_def us_per_day_def)
    have c': "count_is_integer (snd ?first)"
      unfolding first by (simp add: count_is_integer_def)
    have n': "recorded_count (snd ?first) = recorded_count license + 1"
      unfolding first by (simp add: recorded_count_def)
    have "reactivate_license lib later (snd ?first) =
       (None, (snd ?first)(''expires_date'' \<mapsto> JStr (isoformat lib (plus_days (plus_days t 30) 30)),
                    ''last_reactivated'' \<mapsto> JStr (isoformat lib later),
                    ''reactivation_count'' \<mapsto> JInt (recorded_count (snd ?first) + 1),
                    ''status'' \<mapsto> JStr ''active''))"
      using e' rt r0' r1' c' by (rule reactivate_license_once)
    then show ?thesis
      by (simp add: n' plus_days_plus_days)
  qed
  show ?thesis
  proof (intro conjI impI)
    assume h: "fromisoformat lib (py_replace (CHR ''Z'') ''+00:00'' (isoformat lib (plus_days t 30))) =
        Some (plus_days t 30) \<and> wall t + 60 * us_per_day \<le> max_wall"
    note t = twice [OF conjunct1 [OF h] conjunct2 [OF h]]
    from t show "fst (reactivate_license lib later (snd ?first)) = None" by blast
    from t show "snd (reactivate_license lib later (snd ?first)) ''expires_date'' =
          Some (JStr (isoformat lib (plus_days t 60)))" by blast
    from t show "snd (reactivate_license lib later (snd ?first)) ''last_reactivated'' =
          Some (JStr (isoformat lib later))" by blast
    from t show "snd (reactivate_license lib later (snd ?first)) ''reactivation_count'' =
          Some (JInt (recorded_count license + 2))" by blast
    from t show "snd (reactivate_license lib later (snd ?first)) ''status'' = Some (JStr ''active'')"
      by blast
  qed (use once in blast)+
qed

text \<open>
  The claim as stated covers every license with a parsable \<open>expires_date\<close>. A license
  that expires at 9999-12-31T23:59:59 has one, and its reactivation raises
  \<open>OverflowError\<close> and leaves \<open>expires_date\<close> as it was.
\<close>

theorem reactivate_license_overflow_counterexample:
  "parse_expiry ref_lib (JStr ''9999-12-31T23:59:59'') = Inr (Datetime 315537897599000000 None) \<and>
   fst (reactivate_license ref_lib sample_now perpetual_license) = Some OverflowError \<and>
   snd (reactivate_license ref_lib sample_now perpetual_license) ''expires_date'' =
     Some (JStr ''9999-12-31T23:59:59'')"
  by code_simp


theorem reactivate_license_extends_witness:
  "fst (reactivate_license ref_lib sample_now sample_license) = None \<and>
   snd (reactivate_license ref_lib sample_now sample_license) ''expires_date'' =
     Some (JStr ''2024-03-10T00:00:00'') \<and>
   snd (reactivate_license ref_lib sample_now sample_license) ''last_reactivated'' =
     Some (JStr ''2024-02-06T12:00:00'') \<and>
   snd (reactivate_license ref_lib sample_now sample_license) ''reactivation_count'' =
     Some (JInt 1) \<and>
   snd (reactivate_license ref_lib sample_now sample_license) ''status'' =
     Some (JStr ''active'') \<and>
   snd (reactivate_license ref_lib sample_later
          (snd (reactivate_license ref_lib sample_now sample_license))) ''expires_date'' =
     Some (JStr ''2024-04-09T00:00:00'') \<and>
   snd (reactivate_license ref_lib sample_later
          (snd (reactivate_license ref_lib sample_now sample_license))) ''reactivation_count'' =
     Some (JInt 2)"
proof -
  let ?t = "Datetime 63843033600000000 None"
  have e: "sample_license ''expires_date'' = Some (JStr ''2024-02-09T00:00:00'')"
    by (simp add: sample_license_def)
  have p: "fromisoformat ref_lib (py_replace (CHR ''Z'') ''+00:00'' ''2024-02-09T00:00:00'') = Some ?t"
    by code_simp
  have r0: "0 \<le> wall ?t" by simp
  have r1: "wall ?t + 30 * us_per_day \<le> max_wall"
    by (simp add: max_wall_def us_per_day_def)
  have r2: "wall ?t + 60 * us_per_day \<le> max_wall"
    by (simp add: max_wall_def us_per_day_def)
  have c: "count_is_integer sample_license"
    by (simp add: count_is_integer_def sample_license_def)
  have n: "recorded_count sample_license = 0"
    by (simp add: recorded_count_def sample_license_def)
  have f30: "isoformat ref_lib (plus_days ?t 30) = ''2024-03-10T00:00:00''"
    by code_simp
  have f60: "isoformat ref_lib (plus_days ?t 60) = ''2024-04-09T00:00:00''"
    by code_simp
  have fn: "isoformat ref_lib sample_now = ''2024-02-06T12:00:00''"
    by code_simp
  have rt: "fromisoformat ref_lib
              (py_replace (CHR ''Z'') ''+00:00'' (isoformat ref_lib (plus_days ?t 30))) =
            Some (plus_days ?t 30)"
    by code_simp
  show ?thesis
    using reactivate_license_extends [OF e p r0 r1 c, of sample_now sample_later] rt r2
    by (simp add: f30 f60 fn n)
qed

section \<open>Validation against issuance\<close>

lemma validated_length: "validate_hardware_fingerprint fp \<Longrightarrow> length fp \<le> 17"
proof -
  assume v: "validate_hardware_fingerprint fp"
  have "drop 16 fp = [] \<or> drop 16 fp = [CHR 0x0A]"
    using v
    by (auto simp add: validate_hardware_fingerprint_def re_match_def rep_counts_def Let_def
          split: list.splits if_splits)
  then have "length (drop 16 fp) \<le> 1"
  proof
    assume "drop 16 fp = []"
    then show ?thesis by simp
  next
    assume d: "drop 16 fp = [CHR 0x0A]"
    have "length (drop 16 fp) = 1" unfolding d by simp
    then show ?thesis by simp
  qed
  then show ?thesis by simp
qed

text \<open>
  C1. A fingerprint that \<open>validate_hardware_fingerprint\<close> accepts has 16 characters
  (17 with a final newline), and \<open>main\<close> of generate-license.py rejects every
  fingerprint of fewer than 32 characters: issuance rejects every fingerprint that
  validation accepts, with the message \<open>ERROR: Invalid hardware fingerprint\<close>, and
  builds no license for it.
\<close>

theorem validated_fingerprint_rejected:
  "validate_hardware_fingerprint fp \<Longrightarrow>
     main_generate lib now key_now fp co em duration =
       Rejected ''ERROR: Invalid hardware fingerprint''"
  using validated_length [of fp] by (simp add: main_generate_def)

theorem validated_fingerprint_rejected_witness:
  "issue_info.valid (extract_issue_info
      ''Auto-Activation Request - Acme Corp - AB12CD34EF56GH78''
      ''Email: ops@acme.com\<newline>Software Version: 3.2.5'') \<and>
   fingerprint (extract_issue_info
      ''Auto-Activation Request - Acme Corp - AB12CD34EF56GH78''
      ''Email: ops@acme.com\<newline>Software Version: 3.2.5'') = Some ''AB12CD34EF56GH78'' \<and>
   main_generate ref_lib sample_now sample_later ''AB12CD34EF56GH78'' ''Acme Corp''
      ''ops@acme.com'' 30 = Rejected ''ERROR: Invalid hardware fingerprint''"
proof -
  have i: "extract_issue_info
      ''Auto-Activation Request - Acme Corp - AB12CD34EF56GH78''
      ''Email: ops@acme.com\<newline>Software Version: 3.2.5'' =
     \<lparr>fingerprint = Some ''AB12CD34EF56GH78'', company = Some ''Acme Corp'',
      email = Some ''ops@acme.com'', name = None, valid = True, errors = []\<rparr>"
    by code_simp
  have v: "validate_hardware_fingerprint ''AB12CD34EF56GH78''"
    by code_simp
  show ?thesis
    using validated_fingerprint_rejected [OF v, of ref_lib sample_now sample_later
        "''Acme Corp''" "''ops@acme.com''" 30]
    by (simp add: i)
qed


section \<open>Issuance\<close>

lemma create_license_fields:
  assumes "- 999999999 \<le> d" "d \<le> 999999999"
    and "0 \<le> wall now + d * us_per_day" "wall now + d * us_per_day \<le> max_wall"
  shows "\<exists>license. create_license lib now key_now fp co em d = Inr license \<and>
     license ''created_date'' = Some (JStr (isoformat lib now)) \<and>
     license ''expires_date'' = Some (JStr (isoformat lib (plus_days now d))) \<and>
     license ''status'' = Some (JStr ''active'') \<and>
     license ''reactivation_count'' = None"
  using assms
  by (simp add: create_license_def add_days_def timedelta_days_def datetime_add_def plus_days_def)

text \<open>
  C6, as amended. Issuance does not look at the sign of the duration. For every
  duration \<open>d\<close>, positive, zero or negative, such that \<open>timedelta(days=d)\<close> and now plus
  \<open>d\<close> days are representable, \<open>create_license\<close> returns a license whose
  \<open>created_date\<close> is now, whose \<open>expires_date\<close> is now plus \<open>d\<close> days and whose \<open>status\<close>
  is active; the date of expiry is later than the date of creation exactly when \<open>d\<close> is
  positive. For arguments that pass its three checks, \<open>main\<close> rejects no duration: it
  builds and prints that very license. (How the run ends after the printing does not
  depend on the duration and is not part of this statement.)
\<close>

theorem issuance_any_duration:
  assumes "- 999999999 \<le> d" "d \<le> 999999999"
    and "0 \<le> wall now + d * us_per_day" "wall now + d * us_per_day \<le> max_wall"
  shows "\<exists>license. create_license lib now key_now fp co em d = Inr license \<and>
     license ''created_date'' = Some (JStr (isoformat lib now)) \<and>
     license ''expires_date'' = Some (JStr (isoformat lib (plus_days now d))) \<and>
     license ''status'' = Some (JStr ''active'') \<and>
     (wall now < wall (plus_days now d) \<longleftrightarrow> 0 < d) \<and>
     (32 \<le> length fp \<and> 2 \<le> length co \<and> py_in ''@'' em \<longrightarrow>
        (\<exists>e. main_generate lib now key_now fp co em d = Printed license e))"
proof -
  obtain license where l: "create_license lib now key_now fp co em d = Inr license"
    and f: "license ''created_date'' = Some (JStr (isoformat lib now))"
      "license ''expires_date'' = Some (JStr (isoformat lib (plus_days now d)))"
      "license ''status'' = Some (JStr ''active'')"
    using create_license_fields [OF assms, of lib key_now fp co em] by blast
  have w: "wall now < wall (plus_days now d) \<longleftrightarrow> 0 < d"
    by (simp add: plus_days_def us_per_day_def)
  have m: "32 \<le> length fp \<and> 2 \<le> length co \<and> py_in ''@'' em \<longrightarrow>
        (\<exists>e. main_generate lib now key_now fp co em d = Printed license e)"
  proof (rule impI)
    assume h: "32 \<le> length fp \<and> 2 \<le> length co \<and> py_in ''@'' em"
    then have e: "em \<noteq> []" by auto
    have "main_generate lib now key_now fp co em d = Printed license NameError"
      using h e l by (auto simp add: main_generate_def)
    then show "\<exists>e. main_generate lib now key_now fp co em d = Printed license e" ..
  qed
  from l f w m show ?thesis by blast
qed

theorem issuance_any_duration_witness:
  "\<exists>license. create_license ref_lib sample_now sample_later
       ''AB12CD34EF56GH78AB12CD34EF56GH78'' ''Acme Corp'' ''ops@acme.com'' 30 = Inr license \<and>
     license ''created_date'' = Some (JStr ''2024-02-06T12:00:00'') \<and>
     license ''expires_date'' = Some (JStr ''2024-03-07T12:00:00'') \<and>
     (\<exists>e. main_generate ref_lib sample_now sample_later
       ''AB12CD34EF56GH78AB12CD34EF56GH78'' ''Acme Corp'' ''ops@acme.com'' 30 =
       Printed license e)"
proof -
  have 1: "32 \<le> length ''AB12CD34EF56GH78AB12CD34EF56GH78''" by simp
  have 2: "2 \<le> length ''Acme Corp''" by simp
  have 3: "py_in ''@'' ''ops@acme.com''" by code_simp
  have 4: "- 999999999 \<le> (30::int)" by simp
  have 5: "(30::int) \<le> 999999999" by simp
  have 6: "0 \<le> wall sample_now + 30 * us_per_day"
    by (simp add: sample_now_def us_per_day_def)
  have 7: "wall sample_now + 30 * us_per_day \<le> max_wall"
    by (simp add: sample_now_def us_per_day_def max_wall_def)
  have a: "isoformat ref_lib sample_now = ''2024-02-06T12:00:00''" by code_simp
  have b: "isoformat ref_lib (plus_days sample_now 30) = ''2024-03-07T12:00:00''" by code_simp
  from issuance_any_duration [OF 4 5 6 7, of ref_lib sample_later
      "''AB12CD34EF56GH78AB12CD34EF56GH78''" "''Acme Corp''" "''ops@acme.com''"] 1 2 3
  obtain license where
    "create_license ref_lib sample_now sample_later
       ''AB12CD34EF56GH78AB12CD34EF56GH78'' ''Acme Corp'' ''ops@acme.com'' 30 = Inr license"
    "license ''created_date'' = Some (JStr (isoformat ref_lib sample_now))"
    "license ''expires_date'' = Some (JStr (isoformat ref_lib (plus_days sample_now 30)))"
    "\<exists>e. main_generate ref_lib sample_now sample_later
       ''AB12CD34EF56GH78AB12CD34EF56GH78'' ''Acme Corp'' ''ops@acme.com'' 30 =
       Printed license e"
    by blast
  then show ?thesis unfolding a b by blast
qed

text \<open>
  The claim as stated has every non-positive duration rejected in place of a license.
  With a duration of 0 days \<open>create_license\<close> returns a license that expires at the
  moment it is created, and with - 5 days one that expired five days before; \<open>main\<close>
  prints the former.
\<close>

theorem issuance_zero_duration_counterexample:
  "(case create_license ref_lib sample_now sample_later
       ''AB12CD34EF56GH78AB12CD34EF56GH78'' ''Acme Corp'' ''ops@acme.com'' 0 of
      Inr license \<Rightarrow>
        license ''created_date'' = Some (JStr ''2024-02-06T12:00:00'') \<and>
        license ''expires_date'' = Some (JStr ''2024-02-06T12:00:00'')
    | Inl e \<Rightarrow> False) \<and>
   (case create_license ref_lib sample_now sample_later
       ''AB12CD34EF56GH78AB12CD34EF56GH78'' ''Acme Corp'' ''ops@acme.com'' (- 5) of
      Inr license \<Rightarrow>
        license ''created_date'' = Some (JStr ''2024-02-06T12:00:00'') \<and>
        license ''expires_date'' = Some (JStr ''2024-02-01T12:00:00'')
    | Inl e \<Rightarrow> False) \<and>
   (case main_generate ref_lib sample_now sample_later
       ''AB12CD34EF56GH78AB12CD34EF56GH78'' ''Acme Corp'' ''ops@acme.com'' 0 of
      Printed license e \<Rightarrow>
        license ''created_date'' = Some (JStr ''2024-02-06T12:00:00'') \<and>
        license ''expires_date'' = Some (JStr ''2024-02-06T12:00:00'')
    | _ \<Rightarrow> False)"
  by code_simp

section \<open>The scan for expiring licenses\<close>

text \<open>
  The scan keeps, in the order of the input, the licenses that pass the test of its
  loop, and skips the others without stopping.
\<close>

lemma scan_licenses_filter:
  "scan_licenses lib cutoff_date licenses expiring =
     expiring @ filter (kept_by_scan lib cutoff_date) licenses"
proof (induction licenses arbitrary: expiring)
  case Nil
  show ?case by simp
next
  case (Cons license rest)
  show ?case
    by (cases "license ''expires_date''")
       (auto simp add: Cons.IH kept_by_scan_def split: sum.splits bool.splits)
qed

lemma find_expiring_licenses_filter:
  "add_days now days_ahead = Inr cutoff_date \<Longrightarrow>
     find_expiring_licenses lib now licenses days_ahead =
       Inr (filter (kept_by_scan lib cutoff_date) licenses)"
  by (simp add: find_expiring_licenses_def scan_licenses_filter)

text \<open>
  Against the cutoff, which is a naive time, a license whose \<open>expires_date\<close> reads as a
  naive time is kept when it is active and expires by the cutoff; one whose
  \<open>expires_date\<close> reads as a time with a UTC offset is never kept, because the
  comparison raises \<open>TypeError\<close>, which the loop catches.
\<close>

lemma kept_by_scan_naive:
  "license ''expires_date'' = Some (JStr s) \<Longrightarrow> s \<noteq> [] \<Longrightarrow>
   fromisoformat lib (py_replace (CHR ''Z'') ''+00:00'' s) = Some (Datetime w None) \<Longrightarrow>
     kept_by_scan lib (Datetime c None) license \<longleftrightarrow>
       license ''status'' = Some (JStr ''active'') \<and> w \<le> c"
  by (simp add: kept_by_scan_def expires_by_def datetime_le_def)

lemma kept_by_scan_aware:
  "license ''expires_date'' = Some (JStr s) \<Longrightarrow>
   fromisoformat lib (py_replace (CHR ''Z'') ''+00:00'' s) = Some (Datetime w (Some off)) \<Longrightarrow>
     \<not> kept_by_scan lib (Datetime c None) license"
  by (simp add: kept_by_scan_def expires_by_def datetime_le_def)

text \<open>
  C3, at an input where the code departs from it. The license is active and its
  \<open>expires_date\<close>, \<open>2020-01-01T00:00:00Z\<close>, parses (to midnight UTC, years before the
  cutoff of 2024-02-11T12:00:00); the scan returns no license, and \<open>main\<close> reports 1
  license scanned and 0 expiring.
\<close>

theorem utc_expiry_skipped:
  "parse_expiry ref_lib (JStr ''2020-01-01T00:00:00Z'') =
     Inr (Datetime 63713433600000000 (Some 0)) \<and>
   utc_license ''status'' = Some (JStr ''active'') \<and>
   find_expiring_licenses ref_lib sample_now [utc_license] 5 = Inr [] \<and>
   main_check ref_lib sample_now [utc_license] = Inr (1, 0, [])"
proof -
  have p: "parse_expiry ref_lib (JStr ''2020-01-01T00:00:00Z'') =
     Inr (Datetime 63713433600000000 (Some 0))"
    by code_simp
  have s: "utc_license ''status'' = Some (JStr ''active'')"
    by (simp add: utc_license_def sample_license_def)
  have c: "add_days sample_now 5 = Inr (Datetime 63843249600000000 None)"
    by code_simp
  have k: "\<not> kept_by_scan ref_lib (Datetime 63843249600000000 None) utc_license"
    by code_simp
  have f: "find_expiring_licenses ref_lib sample_now [utc_license] 5 = Inr []"
    using find_expiring_licenses_filter [OF c, of ref_lib "[utc_license]"] k by simp
  have m: "main_check ref_lib sample_now [utc_license] = Inr (1, 0, [])"
    by (simp add: main_check_def f)
  from p s f m show ?thesis by (intro conjI)
qed

end
